theory Spec2Isabelle
  imports Main "HOL-Library.Sublist" "HOL-Library.Word"
begin

section \<open>Library functions the program calls\<close>

text \<open>
  The program keeps a directory of human-readable object files (\<open>gm_txt\<close>) in step with the
  object and script files of a GameMaker project. Its source is \<open>main.go\<close> and a second file,
  an earlier state of \<open>main.go\<close>; from the second file the model takes the two functions that
  \<open>main.go\<close> calls and does not define, \<open>GMObjectFileToHumanObjectFile\<close> and
  \<open>HumanObjectFileToGMObjectFile\<close>.

  The program is Go. Strings are byte strings (\<open>string\<close>, a \<open>char list\<close>). The functions of
  this section are those of Go's packages \<open>strings\<close>, \<open>path/filepath\<close> and \<open>time\<close> that
  \<open>main.go\<close> calls, written out for the Unix build: the only path separator is \<open>/\<close> and there
  are no volume names.
\<close>

type_synonym path = string
type_synonym bytes = string

subsection \<open>Package strings\<close>

definition HasPrefix :: "string \<Rightarrow> string \<Rightarrow> bool" where
  "HasPrefix s pre = prefix pre s"

definition HasSuffix :: "string \<Rightarrow> string \<Rightarrow> bool" where
  "HasSuffix s suf = suffix suf s"

definition TrimSuffix :: "string \<Rightarrow> string \<Rightarrow> string" where
  "TrimSuffix s suf = (if HasSuffix s suf then take (length s - length suf) s else s)"

text \<open>
  \<open>strings.Split(s, sep)\<close> for a separator of one byte: the scan keeps the bytes of the current
  piece (reversed) and closes the piece at every separator. The result is never empty.
\<close>

fun Split_scan :: "char \<Rightarrow> string \<Rightarrow> string \<Rightarrow> string list" where
  "Split_scan sep piece [] = [rev piece]"
| "Split_scan sep piece (c # cs) =
     (if c = sep then rev piece # Split_scan sep [] cs else Split_scan sep (c # piece) cs)"

definition Split :: "string \<Rightarrow> char \<Rightarrow> string list" where
  "Split s sep = Split_scan sep [] s"

text \<open>\<open>strings.Join(elems, "/")\<close>.\<close>

fun Join_sep :: "string list \<Rightarrow> string" where
  "Join_sep [] = []"
| "Join_sep [e] = e"
| "Join_sep (e # es) = e @ ''/'' @ Join_sep es"

subsection \<open>Package path/filepath\<close>

definition IsPathSeparator :: "char \<Rightarrow> bool" where
  "IsPathSeparator c = (c = CHR ''/'')"

text \<open>
  \<open>filepath.Ext\<close> walks back from the end of the path to the last separator and returns the
  suffix that starts at the first dot it meets, or the empty string.
\<close>

fun Ext_scan :: "string \<Rightarrow> string \<Rightarrow> string" where
  "Ext_scan [] seen = []"
| "Ext_scan (c # front) seen =
     (if IsPathSeparator c then []
      else if c = CHR ''.'' then c # seen
      else Ext_scan front (c # seen))"

definition Ext :: "path \<Rightarrow> string" where
  "Ext p = Ext_scan (rev p) []"

text \<open>
  \<open>filepath.Base\<close>: the last element of the path, after trailing separators are removed;
  \<open>"."\<close> for the empty path and the separator for a path of separators only.
\<close>

definition Base :: "path \<Rightarrow> string" where
  "Base p =
     (if p = [] then ''.''
      else let stripped = dropWhile IsPathSeparator (rev p);
               elem = rev (takeWhile (\<lambda>c. \<not> IsPathSeparator c) stripped)
           in if elem = [] then ''/'' else elem)"


text \<open>
  \<open>filepath.Clean\<close>, on the elements of the path: empty elements and \<open>.\<close> are dropped, \<open>..\<close>
  removes the element before it, is dropped at the root of a rooted path and is kept at the
  start of a relative one. \<open>kept\<close> holds the elements written so far, last one first.
\<close>

fun Clean_elems :: "bool \<Rightarrow> string list \<Rightarrow> string list \<Rightarrow> string list" where
  "Clean_elems rooted kept [] = rev kept"
| "Clean_elems rooted kept (e # es) =
     (if e = [] \<or> e = ''.'' then Clean_elems rooted kept es
      else if e = ''..'' then
        (case kept of
           [] \<Rightarrow> if rooted then Clean_elems rooted [] es else Clean_elems rooted [e] es
         | k # ks \<Rightarrow> if k = ''..'' then Clean_elems rooted (e # kept) es
                      else Clean_elems rooted ks es)
      else Clean_elems rooted (e # kept) es)"

definition Clean :: "path \<Rightarrow> path" where
  "Clean p =
     (case p of
        [] \<Rightarrow> ''.''
      | c # _ \<Rightarrow>
          let rooted = IsPathSeparator c;
              out = (if rooted then ''/'' else []) @ Join_sep (Clean_elems rooted [] (Split p CHR ''/''))
          in if out = [] then ''.'' else out)"

text \<open>
  \<open>filepath.Join\<close>: the elements from the first non-empty one on, joined by the separator and
  cleaned; the empty string when every element is empty.
\<close>

definition Join :: "string list \<Rightarrow> path" where
  "Join elems =
     (case dropWhile (\<lambda>e. e = []) elems of
        [] \<Rightarrow> []
      | e # es \<Rightarrow> Clean (Join_sep (e # es)))"

subsection \<open>Package time\<close>

text \<open>
  An instant (\<open>time.Time\<close>) is a number of nanoseconds counted from the zero \<open>Time\<close>, so the
  zero value of a \<open>time.Time\<close> variable is \<open>0\<close>. A \<open>time.Duration\<close> is a signed 64-bit count
  of nanoseconds, and \<open>Time.Sub\<close> saturates at its bounds. \<open>time.Since(t)\<close> is
  \<open>time.Now().Sub(t)\<close>; the reading of the clock is an argument here.
\<close>

type_synonym time = int
type_synonym duration = int

definition maxDuration :: duration where
  "maxDuration = 2 ^ 63 - 1"

definition minDuration :: duration where
  "minDuration = - (2 ^ 63)"

definition Millisecond :: duration where
  "Millisecond = 1000000"

definition Second :: duration where
  "Second = 1000 * Millisecond"

definition Sub :: "time \<Rightarrow> time \<Rightarrow> duration" where
  "Sub t u =
     (let d = t - u
      in if d > maxDuration then maxDuration
         else if d < minDuration then minDuration
         else d)"

definition Since :: "time \<Rightarrow> time \<Rightarrow> duration" where
  "Since now t = Sub now t"

section \<open>The world the program runs in\<close>

subsection \<open>Errors and printed lines\<close>

text \<open>
  A Go \<open>error\<close> is a value. The first three constructors are the errors the program receives:
  from \<open>os.Open\<close> and \<open>os.Stat\<close> on a missing file, from an \<open>os.Create\<close> that is refused,
  and from a collaborator (with its message). The others are the messages that
  \<open>GMObjectFileToHumanObjectFile\<close> and \<open>HumanObjectFileToGMObjectFile\<close> build with
  \<open>errors.New(fmt.Sprintf("... %v: %v", file, err))\<close>, one constructor for each format.
\<close>

datatype error =
    NotExist path
  | CreateRefused path
  | External string
  | Error_opening_file path error
  | Error_decoding_XML path error
  | Error_creating_file path error
  | Error_writing_human_object path error
  | Error_reading_human_object path error
  | Error_writing_XML path error

text \<open>
  Standard output is a list of lines, one constructor for each \<open>Printf\<close> or \<open>Println\<close> of
  \<open>main.go\<close>. The lines of the event handlers begin with the time of day
  (\<open>time.Now().Format("15:04:05")\<close>), which is not part of the model.
\<close>

datatype line =
    Usage
  | Error_in_dialog error
  | Error_Stat_ing path error
  | Must_select_project_file
  | Error_creating_gm_txt path error
  | Error_initially_translating string error
  | Error_during_initial_translation error
  | Error_during_initial_copying error
  | Error_creating_watcher error
  | Error_assigning_human_dir error
  | Error_assigning_objects_dir error
  | Error_assigning_scripts_dir error
  | Listening_line
  | Fsnotify_watcher_error error
  | Stamped_error error
  | Translated string
  | Copied string
  | Project_file_updated string
  | FromGM_error error
  | FromGM_Translated string
  | FromGM_Copied string

text \<open>
  The calls the program makes to the four operations that touch files, with their arguments, in
  order. No variable of the program holds this list; it is what an observer of the program sees.
\<close>

datatype call =
    Call_GMObjectFileToHumanObjectFile path path
  | Call_HumanObjectFileToGMObjectFile path path
  | Call_cp path path
  | Call_AppendResourceToGMProject string string string

subsection \<open>State\<close>

text \<open>
  The package-level variables of \<open>main.go\<close>, followed by the environment: the regular files with
  their contents, the paths at which \<open>os.Create\<close> succeeds, standard output, and the observed
  calls. \<open>os.Open\<close> fails on a missing file only, and \<open>os.Stat\<close> likewise.
\<close>

record world =
  humanDir :: path
  projectPath :: path
  projectDir :: path
  gmObjectsDir :: path
  gmScriptsDir :: path
  gmChanged :: time
  humanChanged :: time
  lastGMFileChanged :: string
  lastHumanFileChanged :: string
  files :: "path \<rightharpoonup> bytes"
  creatable :: "path \<Rightarrow> bool"
  out :: "line list"
  calls :: "call list"

definition reverbSpacing :: duration where
  "reverbSpacing = 1 * Second"

definition dedupSpacing :: duration where
  "dedupSpacing = 100 * Millisecond"

definition print :: "line \<Rightarrow> world \<Rightarrow> world" where
  "print l w = w\<lparr>out := out w @ [l]\<rparr>"

definition observe :: "call \<Rightarrow> world \<Rightarrow> world" where
  "observe c w = w\<lparr>calls := calls w @ [c]\<rparr>"

definition os_Open :: "path \<Rightarrow> world \<Rightarrow> error + bytes" where
  "os_Open p w = (case files w p of None \<Rightarrow> Inl (NotExist p) | Some content \<Rightarrow> Inr content)"

text \<open>\<open>os.Create\<close> creates the file or truncates it.\<close>

definition os_Create :: "path \<Rightarrow> world \<Rightarrow> error + world" where
  "os_Create p w =
     (if creatable w p then Inr (w\<lparr>files := (files w)(p \<mapsto> [])\<rparr>) else Inl (CreateRefused p))"

definition file_Write :: "path \<Rightarrow> bytes \<Rightarrow> world \<Rightarrow> world" where
  "file_Write p written w =
     w\<lparr>files := (files w)(p \<mapsto> (case files w p of None \<Rightarrow> [] | Some content \<Rightarrow> content) @ written)\<rparr>"

definition exists :: "path \<Rightarrow> world \<Rightarrow> bool" where
  \<comment> \<open>\<open>_, err := os.Stat(p); !os.IsNotExist(err)\<close>\<close>
  "exists p w = (files w p \<noteq> None)"

subsection \<open>Collaborators\<close>

text \<open>
  The program calls functions that are not in its two source files: the XML decoder and encoder
  of the Go library for the type \<open>GMObject\<close> (here \<open>'obj\<close>), and \<open>WriteHumanObject\<close>,
  \<open>ReadHumanObject\<close>, \<open>cp\<close> and \<open>AppendResourceToGMProject\<close> of the package itself. They are
  parameters. The encoder returns the bytes that have reached the file when it returns, and the
  error, if any. \<open>WriteHumanObject\<close> writes to a buffered writer (\<open>bufio.Writer\<close>): it returns
  the bytes that have reached the file when it returns, the bytes that are still in the buffer,
  and the error, if any; \<open>Flush\<close> is the \<open>Flush\<close> of that writer on a buffer with the given
  bytes: the bytes that reach the file, and the error, if any. \<open>ReadHumanObject\<close> updates the
  object it is given; \<open>cp\<close> and \<open>AppendResourceToGMProject\<close> act on the files, the latter on
  the project file, whose path it reads from the variable \<open>projectPath\<close>.
\<close>

record 'obj env =
  xml_Decode :: "bytes \<Rightarrow> error + 'obj"
  xml_Encode :: "'obj \<Rightarrow> bytes \<times> error option"
  WriteHumanObject :: "'obj \<Rightarrow> bytes \<times> bytes \<times> error option"
  Flush :: "bytes \<Rightarrow> bytes \<times> error option"
  ReadHumanObject :: "bytes \<Rightarrow> 'obj \<Rightarrow> error + 'obj"
  cp :: "path \<Rightarrow> path \<Rightarrow> (path \<rightharpoonup> bytes) \<Rightarrow> error option \<times> (path \<rightharpoonup> bytes)"
  AppendResourceToGMProject ::
    "string \<Rightarrow> string \<Rightarrow> string \<Rightarrow> path \<Rightarrow> (path \<rightharpoonup> bytes) \<Rightarrow> error option \<times> (path \<rightharpoonup> bytes)"

definition do_cp :: "'obj env \<Rightarrow> path \<Rightarrow> path \<Rightarrow> world \<Rightarrow> error option \<times> world" where
  "do_cp env dst src w =
     (let w1 = observe (Call_cp dst src) w;
          (err, fs) = cp env dst src (files w1)
      in (err, w1\<lparr>files := fs\<rparr>))"

definition do_AppendResourceToGMProject ::
    "'obj env \<Rightarrow> string \<Rightarrow> string \<Rightarrow> string \<Rightarrow> world \<Rightarrow> error option \<times> world" where
  "do_AppendResourceToGMProject env name kind grp w =
     (let w1 = observe (Call_AppendResourceToGMProject name kind grp) w;
          (err, fs) = AppendResourceToGMProject env name kind grp (projectPath w1) (files w1)
      in (err, w1\<lparr>files := fs\<rparr>))"

section \<open>Translation of one file\<close>

text \<open>
  \<open>GMObjectFileToHumanObjectFile\<close>: open and decode the GM object file, create the human file,
  write the object to it. Every \<open>return\<close> of the source is a branch. When \<open>WriteHumanObject\<close>
  returns an error the function returns without a flush, and what is in the buffer is lost.
  Otherwise it ends with \<open>w.Flush()\<close> and \<open>return nil\<close>: the error of the flush is not looked
  at. The results of the deferred \<open>f.Close()\<close> are not looked at either, here and in the next
  function; they change nothing in the model.
\<close>

definition GMObjectFileToHumanObjectFile ::
    "'obj env \<Rightarrow> path \<Rightarrow> path \<Rightarrow> world \<Rightarrow> error option \<times> world" where
  "GMObjectFileToHumanObjectFile env objFilename humanFilename w0 =
     (let w = observe (Call_GMObjectFileToHumanObjectFile objFilename humanFilename) w0
      in case os_Open objFilename w of
           Inl err \<Rightarrow> (Some (Error_opening_file objFilename err), w)
         | Inr xml \<Rightarrow>
             (case xml_Decode env xml of
                Inl err \<Rightarrow> (Some (Error_decoding_XML objFilename err), w)
              | Inr obj \<Rightarrow>
                  (case os_Create humanFilename w of
                     Inl err \<Rightarrow> (Some (Error_creating_file humanFilename err), w)
                   | Inr w1 \<Rightarrow>
                       (case WriteHumanObject env obj of
                          (written, buffered, Some err) \<Rightarrow>
                            (Some (Error_writing_human_object humanFilename err),
                             file_Write humanFilename written w1)
                        | (written, buffered, None) \<Rightarrow>
                            (case Flush env buffered of
                               (flushed, flush_err) \<Rightarrow>
                                 (None, file_Write humanFilename (written @ flushed) w1))))))"

text \<open>
  \<open>HumanObjectFileToGMObjectFile\<close>: open and decode the GM object file, open the human file and
  read it onto the decoded object, then create the GM object file again and encode the object
  into it.
\<close>

definition HumanObjectFileToGMObjectFile ::
    "'obj env \<Rightarrow> path \<Rightarrow> path \<Rightarrow> world \<Rightarrow> error option \<times> world" where
  "HumanObjectFileToGMObjectFile env humanFilename objFilename w0 =
     (let w = observe (Call_HumanObjectFileToGMObjectFile humanFilename objFilename) w0
      in case os_Open objFilename w of
           Inl err \<Rightarrow> (Some (Error_opening_file objFilename err), w)
         | Inr xml \<Rightarrow>
             (case xml_Decode env xml of
                Inl err \<Rightarrow> (Some (Error_decoding_XML objFilename err), w)
              | Inr obj \<Rightarrow>
                  (case os_Open humanFilename w of
                     Inl err \<Rightarrow> (Some (Error_opening_file humanFilename err), w)
                   | Inr text \<Rightarrow>
                       (case ReadHumanObject env text obj of
                          Inl err \<Rightarrow> (Some (Error_reading_human_object humanFilename err), w)
                        | Inr obj' \<Rightarrow>
                            (case os_Create objFilename w of
                               Inl err \<Rightarrow> (Some (Error_opening_file objFilename err), w)
                             | Inr w1 \<Rightarrow>
                                 (case xml_Encode env obj' of
                                    (written, Some err) \<Rightarrow>
                                      (Some (Error_writing_XML objFilename err),
                                       file_Write objFilename written w1)
                                  | (written, None) \<Rightarrow>
                                      (None, file_Write objFilename written w1)))))))"

section \<open>The event handlers of main.go\<close>

subsection \<open>Events and clock readings\<close>

text \<open>
  An \<open>fsnotify.Event\<close> has the path of the file and the operation, a set of bits in a
  \<open>uint32\<close>.
\<close>

record event =
  Name :: string
  Op :: "32 word"

definition fsnotify_Create :: "32 word" where "fsnotify_Create = 1"
definition fsnotify_Write :: "32 word" where "fsnotify_Write = 2"
definition fsnotify_Remove :: "32 word" where "fsnotify_Remove = 4"
definition fsnotify_Rename :: "32 word" where "fsnotify_Rename = 8"
definition fsnotify_Chmod :: "32 word" where "fsnotify_Chmod = 16"

text \<open>
  Handling one event reads the clock up to three times, in this order: in the first
  \<open>time.Since\<close> of the timing check, in its second \<open>time.Since\<close>, and in the assignment to
  \<open>humanChanged\<close> or \<open>gmChanged\<close>.
\<close>

record clock =
  now_reverb :: time
  now_dedup :: time
  now_assign :: time

subsection \<open>Timing checks\<close>

definition humanFileTimingOk :: "world \<Rightarrow> clock \<Rightarrow> string \<Rightarrow> bool" where
  "humanFileTimingOk w clk humanFile =
     (Since (now_reverb clk) (gmChanged w) > reverbSpacing \<and>
      (lastHumanFileChanged w \<noteq> humanFile \<or>
       Since (now_dedup clk) (humanChanged w) > dedupSpacing))"

definition gmFileTimingOk :: "world \<Rightarrow> clock \<Rightarrow> string \<Rightarrow> bool" where
  "gmFileTimingOk w clk gmFile =
     (Since (now_reverb clk) (humanChanged w) > reverbSpacing \<and>
      (lastGMFileChanged w \<noteq> gmFile \<or>
       Since (now_dedup clk) (gmChanged w) > dedupSpacing))"

subsection \<open>Handlers\<close>

text \<open>
  \<open>strings.Split(fn, ".")[0]\<close>: the result of \<open>Split\<close> is never empty (lemma
  \<open>Split_not_Nil\<close> below), so the index is in range.
\<close>

definition before_first_dot :: "string \<Rightarrow> string" where
  "before_first_dot fn = hd (Split fn CHR ''.'')"

definition copyHumanScript :: "'obj env \<Rightarrow> path \<Rightarrow> world \<Rightarrow> world" where
  "copyHumanScript env humanScriptPath w =
     (let fn = Base humanScriptPath;
          gmScriptPath = Join [gmScriptsDir w, fn];
          scriptName = before_first_dot fn;
          gmFileExisted = exists gmScriptPath w;
          (err, w1) = do_cp env gmScriptPath humanScriptPath w;
          w2 = (case err of Some e \<Rightarrow> print (Stamped_error e) w1
                | None \<Rightarrow> print (Copied scriptName) w1)
      in if \<not> gmFileExisted then
           (let (err', w3) = do_AppendResourceToGMProject env fn ''script'' ''scripts'' w2
            in case err' of Some e \<Rightarrow> print (Stamped_error e) w3
               | None \<Rightarrow> print (Project_file_updated scriptName) w3)
         else w2)"

definition copyGMScript :: "'obj env \<Rightarrow> path \<Rightarrow> world \<Rightarrow> world" where
  "copyGMScript env gmScriptPath w =
     (let fn = Base gmScriptPath;
          humanScriptPath = Join [humanDir w, fn];
          (err, w1) = do_cp env humanScriptPath gmScriptPath w
      in case err of Some e \<Rightarrow> print (FromGM_error e) w1
         | None \<Rightarrow> print (FromGM_Copied (before_first_dot fn)) w1)"

definition translateHumanObject :: "'obj env \<Rightarrow> path \<Rightarrow> world \<Rightarrow> world" where
  "translateHumanObject env humanObjPath w =
     (let objName = before_first_dot (Base humanObjPath);
          gmObjPath = Join [gmObjectsDir w, objName @ ''.object.gmx''];
          gmObjFileExisted = exists gmObjPath w;
          (err, w1) = HumanObjectFileToGMObjectFile env humanObjPath gmObjPath w;
          w2 = (case err of Some e \<Rightarrow> print (Stamped_error e) w1
                | None \<Rightarrow> print (Translated objName) w1)
      in if \<not> gmObjFileExisted then
           (let (err', w3) = do_AppendResourceToGMProject env objName ''object'' ''objects'' w2
            in case err' of Some e \<Rightarrow> print (Stamped_error e) w3
               | None \<Rightarrow> print (Project_file_updated objName) w3)
         else w2)"

definition translateGMObject :: "'obj env \<Rightarrow> path \<Rightarrow> world \<Rightarrow> world" where
  "translateGMObject env gmObjPath w =
     (let objName = before_first_dot (Base gmObjPath);
          humanObjPath = Join [humanDir w, objName @ ''.gmo''];
          (err, w1) = GMObjectFileToHumanObjectFile env gmObjPath humanObjPath w
      in case err of Some e \<Rightarrow> print (FromGM_error e) w1
         | None \<Rightarrow> print (FromGM_Translated objName) w1)"

subsection \<open>processWatcherEvent\<close>

text \<open>The four classification flags that \<open>processWatcherEvent\<close> computes from the path.\<close>

definition isHuman :: "world \<Rightarrow> string \<Rightarrow> bool" where
  "isHuman w name = HasPrefix name (humanDir w)"

definition isHumanObj :: "world \<Rightarrow> string \<Rightarrow> bool" where
  "isHumanObj w name = (isHuman w name \<and> Ext name = ''.gmo'')"

definition isHumanScript :: "world \<Rightarrow> string \<Rightarrow> bool" where
  "isHumanScript w name = (isHuman w name \<and> Ext name = ''.gml'')"

definition isGMObj :: "world \<Rightarrow> string \<Rightarrow> bool" where
  "isGMObj w name = (HasPrefix name (gmObjectsDir w) \<and> Ext name = ''.gmx'')"

definition isGMScript :: "world \<Rightarrow> string \<Rightarrow> bool" where
  "isGMScript w name = (HasPrefix name (gmScriptsDir w) \<and> Ext name = ''.gml'')"

definition processWatcherEvent :: "'obj env \<Rightarrow> event \<Rightarrow> clock \<Rightarrow> world \<Rightarrow> world" where
  "processWatcherEvent env ev clk w =
     (if Op ev = fsnotify_Write then
        if isHumanObj w (Name ev) then
          if humanFileTimingOk w clk (Name ev) then
            translateHumanObject env (Name ev)
              (w\<lparr>humanChanged := now_assign clk, lastHumanFileChanged := Name ev\<rparr>)
          else w
        else if isHumanScript w (Name ev) then
          if humanFileTimingOk w clk (Name ev) then
            copyHumanScript env (Name ev)
              (w\<lparr>humanChanged := now_assign clk, lastHumanFileChanged := Name ev\<rparr>)
          else w
        else if isGMObj w (Name ev) then
          if gmFileTimingOk w clk (Name ev) then
            translateGMObject env (Name ev)
              (w\<lparr>gmChanged := now_assign clk, lastGMFileChanged := Name ev\<rparr>)
          else w
        else if isGMScript w (Name ev) then
          if gmFileTimingOk w clk (Name ev) then
            copyGMScript env (Name ev)
              (w\<lparr>gmChanged := now_assign clk, lastGMFileChanged := Name ev\<rparr>)
          else w
        else w
      else w)"

text \<open>
  The watcher goroutine loops for ever over what the watcher delivers, an event or an error of
  the watcher, one at a time. On a finite list of deliveries, each event with its clock readings,
  it does this.
\<close>

datatype delivery = Event event clock | Watcher_error error

fun watch :: "'obj env \<Rightarrow> delivery list \<Rightarrow> world \<Rightarrow> world" where
  "watch env [] w = w"
| "watch env (Event ev clk # rest) w = watch env rest (processWatcherEvent env ev clk w)"
| "watch env (Watcher_error err # rest) w = watch env rest (print (Fsnotify_watcher_error err) w)"

section \<open>Startup: main up to the point where it listens\<close>

text \<open>
  \<open>filepath.Walk\<close> calls the function it is given on every entry under the root, in order, and
  stops at the first error the function returns. An entry is a path with \<open>info.IsDir()\<close>, or with
  no \<open>info\<close> when the entry could not be examined; the two functions of \<open>main\<close> call
  \<open>info.IsDir()\<close> first, which panics on a nil \<open>info\<close>.
\<close>

type_synonym entry = "path \<times> bool option"

datatype walk_result = Walk_nil | Walk_error error | Walk_panic


definition translate_all_f :: "'obj env \<Rightarrow> entry \<Rightarrow> world \<Rightarrow> walk_result \<times> world" where
  "translate_all_f env e w =
     (case e of
        (p, None) \<Rightarrow> (Walk_panic, w)
      | (p, Some isDir) \<Rightarrow>
          if isDir \<or> \<not> HasSuffix p ''.object.gmx'' then (Walk_nil, w)
          else
            let resourceName = TrimSuffix (Base p) ''.object.gmx'';
                destPath = Join [humanDir w, resourceName @ ''.gmo'']
            in case GMObjectFileToHumanObjectFile env p destPath w of
                 (Some err, w1) \<Rightarrow>
                   (Walk_error err, print (Error_initially_translating resourceName err) w1)
               | (None, w1) \<Rightarrow> (Walk_nil, w1))"








section \<open>Vocabulary of the properties\<close>

text \<open>
  A write event is on the mirror side when \<open>processWatcherEvent\<close> takes one of its two branches
  for the human directory, and on the native side when it takes one of its two branches for the
  GM directories (which it tries second).
\<close>

definition mirror_write :: "world \<Rightarrow> event \<Rightarrow> bool" where
  "mirror_write w ev =
     (Op ev = fsnotify_Write \<and> (isHumanObj w (Name ev) \<or> isHumanScript w (Name ev)))"

definition native_write :: "world \<Rightarrow> event \<Rightarrow> bool" where
  "native_write w ev =
     (Op ev = fsnotify_Write \<and> \<not> isHumanObj w (Name ev) \<and> \<not> isHumanScript w (Name ev) \<and>
      (isGMObj w (Name ev) \<or> isGMScript w (Name ev)))"

text \<open>An event triggers a translation or a copy when handling it makes a call.\<close>

definition triggers :: "'obj env \<Rightarrow> event \<Rightarrow> clock \<Rightarrow> world \<Rightarrow> bool" where
  "triggers env ev clk w = (calls (processWatcherEvent env ev clk w) \<noteq> calls w)"

text \<open>
  The calls that translate or copy a file, and their number among the calls observed so far.
\<close>

fun is_translation :: "call \<Rightarrow> bool" where
  "is_translation (Call_GMObjectFileToHumanObjectFile a b) = True"
| "is_translation (Call_HumanObjectFileToGMObjectFile a b) = True"
| "is_translation (Call_cp dst src) = True"
| "is_translation (Call_AppendResourceToGMProject n k g) = False"

definition translation_count :: "world \<Rightarrow> nat" where
  "translation_count w = length (filter is_translation (calls w))"

text \<open>
  A path is classified when one of the four flags of \<open>processWatcherEvent\<close> holds for it: it
  has a known root as a prefix and the extension that goes with the root.
\<close>

definition classified :: "world \<Rightarrow> string \<Rightarrow> bool" where
  "classified w name =
     (isHumanObj w name \<or> isHumanScript w name \<or> isGMObj w name \<or> isGMScript w name)"

text \<open>
  The two conditions of the specification, in its words: an event at time \<open>T\<close> is suppressed
  as reverb if \<open>T - opposite.lastOwnChangeTime <= reverbSpacing\<close>, with a spacing of one second,
  and as a duplicate if \<open>P == S.lastOwnChangedPath AND T - S.lastOwnChangeTime <= dedupSpacing\<close>,
  with a spacing of 100 milliseconds. Times are in nanoseconds and the subtraction is that of
  the integers.
\<close>

definition suppressed_as_reverb :: "time \<Rightarrow> time \<Rightarrow> bool" where
  "suppressed_as_reverb T opposite_lastOwnChangeTime =
     (T - opposite_lastOwnChangeTime \<le> 1000000000)"

definition suppressed_as_duplicate :: "string \<Rightarrow> time \<Rightarrow> string \<Rightarrow> time \<Rightarrow> bool" where
  "suppressed_as_duplicate P T lastOwnChangedPath lastOwnChangeTime =
     (P = lastOwnChangedPath \<and> T - lastOwnChangeTime \<le> 100000000)"

text \<open>
  The handlers change the files, standard output and the observed calls, and nothing else:
  \<open>same_variables w w'\<close> says that the package-level variables (and the permissions) of \<open>w'\<close>
  are those of \<open>w\<close>.
\<close>

definition same_variables :: "world \<Rightarrow> world \<Rightarrow> bool" where
  "same_variables w w' =
     (humanDir w' = humanDir w \<and> projectPath w' = projectPath w \<and> projectDir w' = projectDir w \<and>
      gmObjectsDir w' = gmObjectsDir w \<and> gmScriptsDir w' = gmScriptsDir w \<and>
      gmChanged w' = gmChanged w \<and> humanChanged w' = humanChanged w \<and>
      lastGMFileChanged w' = lastGMFileChanged w \<and>
      lastHumanFileChanged w' = lastHumanFileChanged w \<and> creatable w' = creatable w)"

section \<open>Example data\<close>

text \<open>
  Collaborators for the examples: an object is the text of its file, every conversion succeeds
  and copies the text (\<open>WriteHumanObject\<close> leaves it in the buffer and the flush writes it),
  \<open>cp\<close> copies a file that exists, and appending to the project file adds a line to it.
\<close>

definition plain_env :: "bytes env" where
  "plain_env =
     \<lparr>xml_Decode = (\<lambda>xml. Inr xml),
      xml_Encode = (\<lambda>obj. (obj, None)),
      WriteHumanObject = (\<lambda>obj. ([], obj, None)),
      Flush = (\<lambda>buffered. (buffered, None)),
      ReadHumanObject = (\<lambda>text obj. Inr text),
      cp = (\<lambda>dst src fs.
              case fs src of None \<Rightarrow> (Some (NotExist src), fs) | Some b \<Rightarrow> (None, fs(dst \<mapsto> b))),
      AppendResourceToGMProject = (\<lambda>name kind grp proj fs.
              case fs proj of None \<Rightarrow> (Some (NotExist proj), fs)
              | Some b \<Rightarrow> (None, fs(proj \<mapsto> b @ grp @ ''/'' @ name @ ''; '')))\<rparr>"

text \<open>
  A project in the directory \<open>proj\<close> with one object, after startup: the variables that \<open>main\<close>
  computes from the project path, the times and last paths at their zero values.
\<close>

definition example_world :: world where
  "example_world =
     \<lparr>humanDir = ''proj/gm_txt'',
      projectPath = ''proj/game.project.gmx'',
      projectDir = ''proj/'',
      gmObjectsDir = ''proj/objects'',
      gmScriptsDir = ''proj/scripts'',
      gmChanged = 0,
      humanChanged = 0,
      lastGMFileChanged = [],
      lastHumanFileChanged = [],
      files = [''proj/game.project.gmx'' \<mapsto> ''objects/Enemy; '',
               ''proj/objects/Enemy.object.gmx'' \<mapsto> ''solid'',
               ''proj/gm_txt/Enemy.gmo'' \<mapsto> ''solid''],
      creatable = (\<lambda>p. True),
      out = [],
      calls = []\<rparr>"

text \<open>An instant of the year 2026, in nanoseconds since the zero \<open>Time\<close>.\<close>

definition example_now :: time where
  "example_now = 64000000000000000000"

text \<open>Two write events, one in the GM objects directory and one in the human directory.\<close>

definition example_gm_event :: event where
  "example_gm_event = \<lparr>Name = ''proj/objects/Enemy.object.gmx'', Op = fsnotify_Write\<rparr>"

definition example_human_event :: event where
  "example_human_event = \<lparr>Name = ''proj/gm_txt/Enemy.gmo'', Op = fsnotify_Write\<rparr>"

text \<open>The clock readings of an event that is handled within one tick of the clock.\<close>

definition clock_at :: "time \<Rightarrow> clock" where
  "clock_at t = \<lparr>now_reverb = t, now_dedup = t, now_assign = t\<rparr>"

text \<open>The same collaborators, but \<open>ReadHumanObject\<close> rejects every human file.\<close>

definition rejecting_env :: "bytes env" where
  "rejecting_env =
     plain_env\<lparr>ReadHumanObject := (\<lambda>text obj. Inl (External ''unknown event''))\<rparr>"

text \<open>A write event for a text file in the human directory.\<close>

definition example_text_event :: event where
  "example_text_event = \<lparr>Name = ''proj/gm_txt/notes.txt'', Op = fsnotify_Write\<rparr>"

text \<open>An event for the human file of the object whose operation is not a write.\<close>

definition example_chmod_event :: event where
  "example_chmod_event = \<lparr>Name = ''proj/gm_txt/Enemy.gmo'', Op = fsnotify_Chmod\<rparr>"

text \<open>The example project after an edit of the human file of its object.\<close>

definition edited_world :: world where
  "edited_world =
     example_world\<lparr>files := (files example_world)(''proj/gm_txt/Enemy.gmo'' \<mapsto> ''not solid'')\<rparr>"

text \<open>
  The same collaborators, but the encoder fails after two bytes have reached the file.
\<close>

definition failing_encoder_env :: "bytes env" where
  "failing_encoder_env =
     plain_env\<lparr>xml_Encode := (\<lambda>obj. (take 2 obj, Some (External ''short write'')))\<rparr>"

text \<open>
  The example project with a human file \<open>Enemy.gmo\<close> and no GM object file for it, the
  project file being empty.
\<close>

definition new_enemy_world :: world where
  "new_enemy_world =
     example_world\<lparr>files := [''proj/game.project.gmx'' \<mapsto> [],
                              ''proj/gm_txt/Enemy.gmo'' \<mapsto> ''solid'']\<rparr>"




section \<open>Basic facts\<close>

lemma Split_scan_not_Nil: "Split_scan sep piece s \<noteq> []"
  by (induction s arbitrary: piece) auto

lemma Split_not_Nil: "Split s sep \<noteq> []"
  by (simp add: Split_def Split_scan_not_Nil)

lemma Since_gt_iff:
  "minDuration \<le> d \<Longrightarrow> d < maxDuration \<Longrightarrow> (Since now t > d) = (now - t > d)"
  by (auto simp: Since_def Sub_def Let_def)

lemma spacing_in_range:
  "minDuration \<le> reverbSpacing" "reverbSpacing < maxDuration"
  "minDuration \<le> dedupSpacing" "dedupSpacing < maxDuration"
  by (simp_all add: reverbSpacing_def dedupSpacing_def Second_def Millisecond_def
      minDuration_def maxDuration_def)

lemma calls_print [simp]: "calls (print l w) = calls w"
  by (simp add: print_def)

lemma files_print [simp]: "files (print l w) = files w"
  by (simp add: print_def)

lemma out_print [simp]: "out (print l w) = out w @ [l]"
  by (simp add: print_def)

subsection \<open>The handlers leave the variables alone\<close>


lemma same_variables_trans:
  "same_variables w w1 \<Longrightarrow> same_variables w1 w2 \<Longrightarrow> same_variables w w2"
  by (simp add: same_variables_def)

lemma same_variables_print: "same_variables w (print l w)"
  by (simp add: same_variables_def print_def)

lemma same_variables_observe: "same_variables w (observe c w)"
  by (simp add: same_variables_def observe_def)

lemma same_variables_file_Write: "same_variables w (file_Write p b w)"
  by (simp add: same_variables_def file_Write_def)

lemma same_variables_os_Create: "os_Create p w = Inr w' \<Longrightarrow> same_variables w w'"
  by (auto simp: same_variables_def os_Create_def split: if_splits)

lemma do_cp_same: "do_cp env dst src w = (e, w') \<Longrightarrow> same_variables w w'"
  by (auto simp: same_variables_def do_cp_def observe_def Let_def split: prod.splits)

lemma do_Append_same:
  "do_AppendResourceToGMProject env n k g w = (e, w') \<Longrightarrow> same_variables w w'"
  by (auto simp: same_variables_def do_AppendResourceToGMProject_def observe_def Let_def
      split: prod.splits)

lemmas created_and_written =
  same_variables_trans [OF same_variables_observe
    same_variables_trans [OF same_variables_os_Create same_variables_file_Write]]

lemma GM2H_same:
  "GMObjectFileToHumanObjectFile env a b w = (e, w') \<Longrightarrow> same_variables w w'"
  by (auto simp: GMObjectFileToHumanObjectFile_def Let_def same_variables_observe
      split: sum.splits option.splits prod.splits intro: created_and_written)

lemma H2GM_same:
  "HumanObjectFileToGMObjectFile env a b w = (e, w') \<Longrightarrow> same_variables w w'"
  by (auto simp: HumanObjectFileToGMObjectFile_def Let_def same_variables_observe
      split: sum.splits option.splits prod.splits intro: created_and_written)

lemmas same_steps =
  same_variables_trans same_variables_print H2GM_same GM2H_same do_cp_same do_Append_same

lemma same_variables_translateHumanObject:
  "same_variables w (translateHumanObject env p w)"
  by (auto simp: translateHumanObject_def Let_def split: prod.splits option.splits)
     (blast intro: same_steps)+

lemma same_variables_copyHumanScript:
  "same_variables w (copyHumanScript env p w)"
  by (auto simp: copyHumanScript_def Let_def split: prod.splits option.splits)
     (blast intro: same_steps)+

lemma same_variables_translateGMObject:
  "same_variables w (translateGMObject env p w)"
  by (auto simp: translateGMObject_def Let_def split: prod.splits option.splits)
     (blast intro: same_steps)+

lemma same_variables_copyGMScript:
  "same_variables w (copyGMScript env p w)"
  by (auto simp: copyGMScript_def Let_def split: prod.splits option.splits)
     (blast intro: same_steps)+

subsection \<open>The calls the handlers make\<close>

lemma GM2H_calls:
  "GMObjectFileToHumanObjectFile env a b w = (e, w') \<Longrightarrow>
     calls w' = calls w @ [Call_GMObjectFileToHumanObjectFile a b]"
  by (auto simp: GMObjectFileToHumanObjectFile_def Let_def observe_def os_Create_def
      file_Write_def split: sum.splits option.splits prod.splits if_splits)

lemma H2GM_calls:
  "HumanObjectFileToGMObjectFile env a b w = (e, w') \<Longrightarrow>
     calls w' = calls w @ [Call_HumanObjectFileToGMObjectFile a b]"
  by (auto simp: HumanObjectFileToGMObjectFile_def Let_def observe_def os_Create_def
      file_Write_def split: sum.splits option.splits prod.splits if_splits)

lemma do_cp_calls:
  "do_cp env dst src w = (e, w') \<Longrightarrow> calls w' = calls w @ [Call_cp dst src]"
  by (auto simp: do_cp_def observe_def Let_def split: prod.splits)

lemma do_Append_calls:
  "do_AppendResourceToGMProject env n k g w = (e, w') \<Longrightarrow>
     calls w' = calls w @ [Call_AppendResourceToGMProject n k g]"
  by (auto simp: do_AppendResourceToGMProject_def observe_def Let_def split: prod.splits)

lemma calls_translateHumanObject:
  "calls (translateHumanObject env p w) =
     calls w @
     Call_HumanObjectFileToGMObjectFile p
       (Join [gmObjectsDir w, before_first_dot (Base p) @ ''.object.gmx'']) #
     (if exists (Join [gmObjectsDir w, before_first_dot (Base p) @ ''.object.gmx'']) w then []
      else [Call_AppendResourceToGMProject (before_first_dot (Base p)) ''object'' ''objects''])"
  by (auto simp: translateHumanObject_def Let_def
      split: prod.splits option.splits dest!: H2GM_calls do_Append_calls)

lemma calls_copyHumanScript:
  "calls (copyHumanScript env p w) =
     calls w @
     Call_cp (Join [gmScriptsDir w, Base p]) p #
     (if exists (Join [gmScriptsDir w, Base p]) w then []
      else [Call_AppendResourceToGMProject (Base p) ''script'' ''scripts''])"
  by (auto simp: copyHumanScript_def Let_def
      split: prod.splits option.splits dest!: do_cp_calls do_Append_calls)

lemma calls_translateGMObject:
  "calls (translateGMObject env p w) =
     calls w @
     [Call_GMObjectFileToHumanObjectFile p
       (Join [humanDir w, before_first_dot (Base p) @ ''.gmo''])]"
  by (auto simp: translateGMObject_def Let_def
      split: prod.splits option.splits dest!: GM2H_calls)

lemma calls_copyGMScript:
  "calls (copyGMScript env p w) = calls w @ [Call_cp (Join [humanDir w, Base p]) p]"
  by (auto simp: copyGMScript_def Let_def
      split: prod.splits option.splits dest!: do_cp_calls)

subsection \<open>What processWatcherEvent does on each side\<close>

lemma mirror_cases:
  "mirror_write w ev \<Longrightarrow>
   processWatcherEvent env ev clk w =
     (if humanFileTimingOk w clk (Name ev) then
        (if isHumanObj w (Name ev) then translateHumanObject env (Name ev)
         else copyHumanScript env (Name ev))
          (w\<lparr>humanChanged := now_assign clk, lastHumanFileChanged := Name ev\<rparr>)
      else w)"
  by (auto simp: mirror_write_def processWatcherEvent_def)

lemma native_cases:
  "native_write w ev \<Longrightarrow>
   processWatcherEvent env ev clk w =
     (if gmFileTimingOk w clk (Name ev) then
        (if isGMObj w (Name ev) then translateGMObject env (Name ev)
         else copyGMScript env (Name ev))
          (w\<lparr>gmChanged := now_assign clk, lastGMFileChanged := Name ev\<rparr>)
      else w)"
  by (auto simp: native_write_def processWatcherEvent_def)

lemma humanFileTimingOk_iff:
  "humanFileTimingOk w clk p =
     (\<not> suppressed_as_reverb (now_reverb clk) (gmChanged w) \<and>
      \<not> suppressed_as_duplicate p (now_dedup clk) (lastHumanFileChanged w) (humanChanged w))"
  using spacing_in_range
  by (auto simp: humanFileTimingOk_def Since_gt_iff suppressed_as_reverb_def
      suppressed_as_duplicate_def reverbSpacing_def dedupSpacing_def Second_def Millisecond_def)

lemma gmFileTimingOk_iff:
  "gmFileTimingOk w clk p =
     (\<not> suppressed_as_reverb (now_reverb clk) (humanChanged w) \<and>
      \<not> suppressed_as_duplicate p (now_dedup clk) (lastGMFileChanged w) (gmChanged w))"
  using spacing_in_range
  by (auto simp: gmFileTimingOk_def Since_gt_iff suppressed_as_reverb_def
      suppressed_as_duplicate_def reverbSpacing_def dedupSpacing_def Second_def Millisecond_def)

lemma triggers_mirror:
  "mirror_write w ev \<Longrightarrow> triggers env ev clk w = humanFileTimingOk w clk (Name ev)"
  by (simp add: triggers_def mirror_cases calls_translateHumanObject calls_copyHumanScript)

lemma triggers_native:
  "native_write w ev \<Longrightarrow> triggers env ev clk w = gmFileTimingOk w clk (Name ev)"
  by (simp add: triggers_def native_cases calls_translateGMObject calls_copyGMScript)


lemma dirs_processWatcherEvent:
  "humanDir (processWatcherEvent env ev clk w) = humanDir w \<and>
   gmObjectsDir (processWatcherEvent env ev clk w) = gmObjectsDir w \<and>
   gmScriptsDir (processWatcherEvent env ev clk w) = gmScriptsDir w"
proof -
  let ?h = "w\<lparr>humanChanged := now_assign clk, lastHumanFileChanged := Name ev\<rparr>"
  let ?g = "w\<lparr>gmChanged := now_assign clk, lastGMFileChanged := Name ev\<rparr>"
  note facts =
    same_variables_translateHumanObject [of ?h env "Name ev"]
    same_variables_copyHumanScript [of ?h env "Name ev"]
    same_variables_translateGMObject [of ?g env "Name ev"]
    same_variables_copyGMScript [of ?g env "Name ev"]
  show ?thesis
    using facts by (simp add: processWatcherEvent_def same_variables_def)
qed

lemma mirror_write_after:
  "mirror_write (processWatcherEvent env ev clk w) ev' = mirror_write w ev'"
  by (simp add: mirror_write_def isHumanObj_def isHumanScript_def isHuman_def
      dirs_processWatcherEvent)

lemma native_write_after:
  "native_write (processWatcherEvent env ev clk w) ev' = native_write w ev'"
  by (simp add: native_write_def isHumanObj_def isHumanScript_def isHuman_def isGMObj_def
      isGMScript_def dirs_processWatcherEvent)

lemma state_after_native:
  assumes "native_write w ev" "gmFileTimingOk w clk (Name ev)"
  shows "gmChanged (processWatcherEvent env ev clk w) = now_assign clk \<and>
         lastGMFileChanged (processWatcherEvent env ev clk w) = Name ev \<and>
         humanChanged (processWatcherEvent env ev clk w) = humanChanged w \<and>
         lastHumanFileChanged (processWatcherEvent env ev clk w) = lastHumanFileChanged w"
proof -
  let ?g = "w\<lparr>gmChanged := now_assign clk, lastGMFileChanged := Name ev\<rparr>"
  note facts =
    same_variables_translateGMObject [of ?g env "Name ev"]
    same_variables_copyGMScript [of ?g env "Name ev"]
  show ?thesis
    using facts assms by (simp add: native_cases same_variables_def)
qed

lemma state_after_mirror:
  assumes "mirror_write w ev" "humanFileTimingOk w clk (Name ev)"
  shows "humanChanged (processWatcherEvent env ev clk w) = now_assign clk \<and>
         lastHumanFileChanged (processWatcherEvent env ev clk w) = Name ev \<and>
         gmChanged (processWatcherEvent env ev clk w) = gmChanged w \<and>
         lastGMFileChanged (processWatcherEvent env ev clk w) = lastGMFileChanged w"
proof -
  let ?h = "w\<lparr>humanChanged := now_assign clk, lastHumanFileChanged := Name ev\<rparr>"
  note facts =
    same_variables_translateHumanObject [of ?h env "Name ev"]
    same_variables_copyHumanScript [of ?h env "Name ev"]
  show ?thesis
    using facts assms by (simp add: mirror_cases same_variables_def)
qed

lemma reverb_general_mirror:
  assumes "mirror_write w ev"
  shows "(suppressed_as_reverb (now_reverb clk) (gmChanged w) \<longrightarrow>
            processWatcherEvent env ev clk w = w) \<and>
         (\<not> suppressed_as_reverb (now_reverb clk) (gmChanged w) \<longrightarrow>
            triggers env ev clk w =
              (\<not> suppressed_as_duplicate (Name ev) (now_dedup clk)
                    (lastHumanFileChanged w) (humanChanged w)))"
  using assms by (simp add: triggers_mirror mirror_cases humanFileTimingOk_iff)

lemma reverb_general_native:
  assumes "native_write w ev"
  shows "(suppressed_as_reverb (now_reverb clk) (humanChanged w) \<longrightarrow>
            processWatcherEvent env ev clk w = w) \<and>
         (\<not> suppressed_as_reverb (now_reverb clk) (humanChanged w) \<longrightarrow>
            triggers env ev clk w =
              (\<not> suppressed_as_duplicate (Name ev) (now_dedup clk)
                    (lastGMFileChanged w) (gmChanged w)))"
  using assms by (simp add: triggers_native native_cases gmFileTimingOk_iff)

lemma reverb_scenario:
  assumes n: "native_write w ev1" and t: "triggers env ev1 clk1 w"
    and mono: "now_reverb clk1 \<le> now_assign clk1"
    and m: "mirror_write (processWatcherEvent env ev1 clk1 w) ev2"
  shows "(now_reverb clk2 = now_assign clk1 + 200 * Millisecond \<longrightarrow>
            processWatcherEvent env ev2 clk2 (processWatcherEvent env ev1 clk1 w) =
              processWatcherEvent env ev1 clk1 w) \<and>
         (now_reverb clk2 = now_assign clk1 + 1200 * Millisecond \<and>
          now_reverb clk2 \<le> now_dedup clk2 \<longrightarrow>
            triggers env ev2 clk2 (processWatcherEvent env ev1 clk1 w))"
proof -
  let ?w1 = "processWatcherEvent env ev1 clk1 w"
  have ok: "gmFileTimingOk w clk1 (Name ev1)"
    using n t by (simp add: triggers_native)
  have st: "gmChanged ?w1 = now_assign clk1" "humanChanged ?w1 = humanChanged w"
    using state_after_native [OF n ok, of env] by simp_all
  have old: "\<not> suppressed_as_reverb (now_reverb clk1) (humanChanged w)"
    using ok by (simp add: gmFileTimingOk_iff)
  show ?thesis
    using m st old mono
    by (auto simp: mirror_cases triggers_mirror humanFileTimingOk_iff suppressed_as_reverb_def
        suppressed_as_duplicate_def Millisecond_def)
qed

subsection \<open>Facts about the example data\<close>

lemma example_native_write: "native_write example_world example_gm_event"
  by (simp add: native_write_def example_world_def example_gm_event_def isHumanObj_def
      isHumanScript_def isHuman_def isGMObj_def HasPrefix_def Ext_def IsPathSeparator_def)

lemma example_mirror_write: "mirror_write example_world example_human_event"
  by (simp add: mirror_write_def example_world_def example_human_event_def isHumanObj_def
      isHuman_def HasPrefix_def Ext_def IsPathSeparator_def)

lemma example_gm_triggers:
  "triggers plain_env example_gm_event (clock_at example_now) example_world"
  unfolding triggers_native [OF example_native_write]
  by (simp add: gmFileTimingOk_iff suppressed_as_reverb_def suppressed_as_duplicate_def
      clock_at_def example_now_def example_world_def example_gm_event_def)

section \<open>Reverb suppression\<close>

text \<open>
  C1. A write event on one side, whose first clock reading is \<open>T\<close>, is dropped (the world is
  left as it was) when \<open>T\<close> minus the time of the last change recorded for the opposite side
  is at most one second; when it is more, the event is not suppressed as reverb: whether it
  triggers a translation or copy is then decided by the duplicate condition alone. In
  particular, after a native-side event was handled, its change being recorded at time \<open>T0\<close>
  (the reading taken just before its translation or copy started), a mirror-side write event
  read at \<open>T0\<close> + 200 ms is dropped and one read at \<open>T0\<close> + 1.2 s triggers its translation or
  copy (the clock does not run backwards).
\<close>

theorem reverb_suppression:
  "(mirror_write w ev \<longrightarrow>
      (suppressed_as_reverb (now_reverb clk) (gmChanged w) \<longrightarrow>
         processWatcherEvent env ev clk w = w) \<and>
      (\<not> suppressed_as_reverb (now_reverb clk) (gmChanged w) \<longrightarrow>
         triggers env ev clk w =
           (\<not> suppressed_as_duplicate (Name ev) (now_dedup clk)
                 (lastHumanFileChanged w) (humanChanged w)))) \<and>
   (native_write w ev \<longrightarrow>
      (suppressed_as_reverb (now_reverb clk) (humanChanged w) \<longrightarrow>
         processWatcherEvent env ev clk w = w) \<and>
      (\<not> suppressed_as_reverb (now_reverb clk) (humanChanged w) \<longrightarrow>
         triggers env ev clk w =
           (\<not> suppressed_as_duplicate (Name ev) (now_dedup clk)
                 (lastGMFileChanged w) (gmChanged w)))) \<and>
   (native_write w ev \<and> triggers env ev clk w \<and> now_reverb clk \<le> now_assign clk \<and>
    mirror_write (processWatcherEvent env ev clk w) ev2 \<longrightarrow>
      (now_reverb clk2 = now_assign clk + 200 * Millisecond \<longrightarrow>
         processWatcherEvent env ev2 clk2 (processWatcherEvent env ev clk w) =
           processWatcherEvent env ev clk w) \<and>
      (now_reverb clk2 = now_assign clk + 1200 * Millisecond \<and>
       now_reverb clk2 \<le> now_dedup clk2 \<longrightarrow>
         triggers env ev2 clk2 (processWatcherEvent env ev clk w)))"
proof (intro conjI impI)
  assume "mirror_write w ev" "suppressed_as_reverb (now_reverb clk) (gmChanged w)"
  then show "processWatcherEvent env ev clk w = w"
    using reverb_general_mirror by blast
next
  assume "mirror_write w ev" "\<not> suppressed_as_reverb (now_reverb clk) (gmChanged w)"
  then show "triggers env ev clk w =
      (\<not> suppressed_as_duplicate (Name ev) (now_dedup clk)
            (lastHumanFileChanged w) (humanChanged w))"
    using reverb_general_mirror by blast
next
  assume "native_write w ev" "suppressed_as_reverb (now_reverb clk) (humanChanged w)"
  then show "processWatcherEvent env ev clk w = w"
    using reverb_general_native by blast
next
  assume "native_write w ev" "\<not> suppressed_as_reverb (now_reverb clk) (humanChanged w)"
  then show "triggers env ev clk w =
      (\<not> suppressed_as_duplicate (Name ev) (now_dedup clk)
            (lastGMFileChanged w) (gmChanged w))"
    using reverb_general_native by blast
next
  assume a: "native_write w ev \<and> triggers env ev clk w \<and> now_reverb clk \<le> now_assign clk \<and>
    mirror_write (processWatcherEvent env ev clk w) ev2"
    and b: "now_reverb clk2 = now_assign clk + 200 * Millisecond"
  show "processWatcherEvent env ev2 clk2 (processWatcherEvent env ev clk w) =
           processWatcherEvent env ev clk w"
    using a b reverb_scenario [of w ev env clk ev2 clk2] by blast
next
  assume a: "native_write w ev \<and> triggers env ev clk w \<and> now_reverb clk \<le> now_assign clk \<and>
    mirror_write (processWatcherEvent env ev clk w) ev2"
    and b: "now_reverb clk2 = now_assign clk + 1200 * Millisecond \<and>
       now_reverb clk2 \<le> now_dedup clk2"
  show "triggers env ev2 clk2 (processWatcherEvent env ev clk w)"
    using a b reverb_scenario [of w ev env clk ev2 clk2] by blast
qed

theorem reverb_suppression_witness:
  "native_write example_world example_gm_event \<and>
   triggers plain_env example_gm_event (clock_at example_now) example_world \<and>
   mirror_write (processWatcherEvent plain_env example_gm_event (clock_at example_now)
     example_world) example_human_event \<and>
   processWatcherEvent plain_env example_human_event
       (clock_at (example_now + 200 * Millisecond))
       (processWatcherEvent plain_env example_gm_event (clock_at example_now) example_world) =
     processWatcherEvent plain_env example_gm_event (clock_at example_now) example_world \<and>
   triggers plain_env example_human_event (clock_at (example_now + 1200 * Millisecond))
     (processWatcherEvent plain_env example_gm_event (clock_at example_now) example_world)"
proof -
  let ?w1 = "processWatcherEvent plain_env example_gm_event (clock_at example_now) example_world"
  have h: "native_write example_world example_gm_event \<and>
      triggers plain_env example_gm_event (clock_at example_now) example_world \<and>
      now_reverb (clock_at example_now) \<le> now_assign (clock_at example_now) \<and>
      mirror_write ?w1 example_human_event"
    using example_native_write example_gm_triggers example_mirror_write
    by (simp add: mirror_write_after clock_at_def)
  note scen = reverb_suppression [of example_world example_gm_event "clock_at example_now"
      plain_env example_human_event, THEN conjunct2, THEN conjunct2, THEN mp, OF h]
  have c1: "processWatcherEvent plain_env example_human_event
       (clock_at (example_now + 200 * Millisecond)) ?w1 = ?w1"
    by (rule scen [of "clock_at (example_now + 200 * Millisecond)", THEN conjunct1, THEN mp])
       (simp add: clock_at_def)
  have c2: "triggers plain_env example_human_event
      (clock_at (example_now + 1200 * Millisecond)) ?w1"
    by (rule scen [of "clock_at (example_now + 1200 * Millisecond)", THEN conjunct2, THEN mp])
       (simp add: clock_at_def)
  from h c1 c2 show ?thesis by blast
qed

section \<open>Duplicate suppression\<close>

lemma count_translateHumanObject:
  "translation_count (translateHumanObject env p w) = translation_count w + 1"
  by (simp add: translation_count_def calls_translateHumanObject)

lemma count_copyHumanScript:
  "translation_count (copyHumanScript env p w) = translation_count w + 1"
  by (simp add: translation_count_def calls_copyHumanScript)

lemma count_translateGMObject:
  "translation_count (translateGMObject env p w) = translation_count w + 1"
  by (simp add: translation_count_def calls_translateGMObject)

lemma count_copyGMScript:
  "translation_count (copyGMScript env p w) = translation_count w + 1"
  by (simp add: translation_count_def calls_copyGMScript)

lemma count_mirror:
  "mirror_write w ev \<Longrightarrow>
   translation_count (processWatcherEvent env ev clk w) =
     (if humanFileTimingOk w clk (Name ev) then translation_count w + 1
      else translation_count w)"
  by (simp add: mirror_cases count_translateHumanObject count_copyHumanScript)
     (simp add: translation_count_def)

lemma count_native:
  "native_write w ev \<Longrightarrow>
   translation_count (processWatcherEvent env ev clk w) =
     (if gmFileTimingOk w clk (Name ev) then translation_count w + 1
      else translation_count w)"
  by (simp add: native_cases count_translateGMObject count_copyGMScript)
     (simp add: translation_count_def)

lemma duplicate_general_mirror:
  assumes "mirror_write w ev"
  shows "(suppressed_as_duplicate (Name ev) (now_dedup clk)
            (lastHumanFileChanged w) (humanChanged w) \<longrightarrow>
            processWatcherEvent env ev clk w = w) \<and>
         (\<not> suppressed_as_duplicate (Name ev) (now_dedup clk)
            (lastHumanFileChanged w) (humanChanged w) \<longrightarrow>
            triggers env ev clk w = (\<not> suppressed_as_reverb (now_reverb clk) (gmChanged w)))"
  using assms by (simp add: triggers_mirror mirror_cases humanFileTimingOk_iff)

lemma duplicate_general_native:
  assumes "native_write w ev"
  shows "(suppressed_as_duplicate (Name ev) (now_dedup clk)
            (lastGMFileChanged w) (gmChanged w) \<longrightarrow>
            processWatcherEvent env ev clk w = w) \<and>
         (\<not> suppressed_as_duplicate (Name ev) (now_dedup clk)
            (lastGMFileChanged w) (gmChanged w) \<longrightarrow>
            triggers env ev clk w = (\<not> suppressed_as_reverb (now_reverb clk) (humanChanged w)))"
  using assms by (simp add: triggers_native native_cases gmFileTimingOk_iff)

lemma duplicate_scenario_mirror:
  assumes m: "mirror_write w ev" and t: "triggers env ev clk1 w"
    and d: "now_dedup clk2 = now_assign clk1 + 10 * Millisecond"
  shows "translation_count (watch env [Event ev clk1, Event ev clk2] w) =
         translation_count w + 1"
proof -
  let ?w1 = "processWatcherEvent env ev clk1 w"
  have ok: "humanFileTimingOk w clk1 (Name ev)"
    using m t by (simp add: triggers_mirror)
  have st: "humanChanged ?w1 = now_assign clk1" "lastHumanFileChanged ?w1 = Name ev"
    using state_after_mirror [OF m ok, of env] by simp_all
  have m1: "mirror_write ?w1 ev"
    using m by (simp add: mirror_write_after)
  have "\<not> humanFileTimingOk ?w1 clk2 (Name ev)"
    using st d by (simp add: humanFileTimingOk_iff suppressed_as_duplicate_def Millisecond_def)
  then have "processWatcherEvent env ev clk2 ?w1 = ?w1"
    using m1 by (simp add: mirror_cases)
  then show ?thesis
    using ok m by (simp add: count_mirror)
qed

lemma duplicate_scenario_native:
  assumes n: "native_write w ev" and t: "triggers env ev clk1 w"
    and d: "now_dedup clk2 = now_assign clk1 + 10 * Millisecond"
  shows "translation_count (watch env [Event ev clk1, Event ev clk2] w) =
         translation_count w + 1"
proof -
  let ?w1 = "processWatcherEvent env ev clk1 w"
  have ok: "gmFileTimingOk w clk1 (Name ev)"
    using n t by (simp add: triggers_native)
  have st: "gmChanged ?w1 = now_assign clk1" "lastGMFileChanged ?w1 = Name ev"
    using state_after_native [OF n ok, of env] by simp_all
  have n1: "native_write ?w1 ev"
    using n by (simp add: native_write_after)
  have "\<not> gmFileTimingOk ?w1 clk2 (Name ev)"
    using st d by (simp add: gmFileTimingOk_iff suppressed_as_duplicate_def Millisecond_def)
  then have "processWatcherEvent env ev clk2 ?w1 = ?w1"
    using n1 by (simp add: native_cases)
  then show ?thesis
    using ok n by (simp add: count_native)
qed

lemma example_human_triggers:
  "triggers plain_env example_human_event (clock_at example_now) example_world"
  unfolding triggers_mirror [OF example_mirror_write]
  by (simp add: humanFileTimingOk_iff suppressed_as_reverb_def suppressed_as_duplicate_def
      clock_at_def example_now_def example_world_def example_human_event_def)

text \<open>
  C3. A write event on one side with path \<open>P\<close>, whose second clock reading is \<open>T\<close>, is
  dropped when \<open>P\<close> is the last path recorded for that side and \<open>T\<close> minus the time recorded
  for that side is at most 100 ms; when that is not so, the event is not suppressed as a
  duplicate: whether it triggers a translation or copy is decided by the reverb condition alone.
  When a notification is handled, a second notification for the same path on the same side, read
  10 ms after the first was recorded, adds nothing: the two make exactly one translation or copy.
\<close>

theorem duplicate_suppression:
  "(mirror_write w ev \<longrightarrow>
      (suppressed_as_duplicate (Name ev) (now_dedup clk)
         (lastHumanFileChanged w) (humanChanged w) \<longrightarrow>
         processWatcherEvent env ev clk w = w) \<and>
      (\<not> suppressed_as_duplicate (Name ev) (now_dedup clk)
         (lastHumanFileChanged w) (humanChanged w) \<longrightarrow>
         triggers env ev clk w = (\<not> suppressed_as_reverb (now_reverb clk) (gmChanged w)))) \<and>
   (native_write w ev \<longrightarrow>
      (suppressed_as_duplicate (Name ev) (now_dedup clk)
         (lastGMFileChanged w) (gmChanged w) \<longrightarrow>
         processWatcherEvent env ev clk w = w) \<and>
      (\<not> suppressed_as_duplicate (Name ev) (now_dedup clk)
         (lastGMFileChanged w) (gmChanged w) \<longrightarrow>
         triggers env ev clk w = (\<not> suppressed_as_reverb (now_reverb clk) (humanChanged w)))) \<and>
   ((mirror_write w ev \<or> native_write w ev) \<and> triggers env ev clk w \<and>
    now_dedup clk2 = now_assign clk + 10 * Millisecond \<longrightarrow>
      translation_count (watch env [Event ev clk, Event ev clk2] w) = translation_count w + 1)"
  using duplicate_general_mirror [of w ev clk env] duplicate_general_native [of w ev clk env]
    duplicate_scenario_mirror [of w ev env clk clk2]
    duplicate_scenario_native [of w ev env clk clk2]
  by blast

theorem duplicate_suppression_witness:
  "mirror_write example_world example_human_event \<and>
   triggers plain_env example_human_event (clock_at example_now) example_world \<and>
   suppressed_as_duplicate (Name example_human_event)
     (now_dedup (clock_at (example_now + 10 * Millisecond)))
     (lastHumanFileChanged
       (processWatcherEvent plain_env example_human_event (clock_at example_now) example_world))
     (humanChanged
       (processWatcherEvent plain_env example_human_event (clock_at example_now) example_world)) \<and>
   processWatcherEvent plain_env example_human_event (clock_at (example_now + 10 * Millisecond))
     (processWatcherEvent plain_env example_human_event (clock_at example_now) example_world) =
   processWatcherEvent plain_env example_human_event (clock_at example_now) example_world \<and>
   translation_count (watch plain_env
     [Event example_human_event (clock_at example_now),
      Event example_human_event (clock_at (example_now + 10 * Millisecond))] example_world) =
   translation_count example_world + 1"
proof -
  let ?w1 = "processWatcherEvent plain_env example_human_event (clock_at example_now)
    example_world"
  let ?clk2 = "clock_at (example_now + 10 * Millisecond)"
  have h: "(mirror_write example_world example_human_event \<or>
            native_write example_world example_human_event) \<and>
      triggers plain_env example_human_event (clock_at example_now) example_world \<and>
      now_dedup ?clk2 = now_assign (clock_at example_now) + 10 * Millisecond"
    using example_mirror_write example_human_triggers by (simp add: clock_at_def)
  have c: "translation_count (watch plain_env
     [Event example_human_event (clock_at example_now),
      Event example_human_event ?clk2] example_world) =
     translation_count example_world + 1"
    by (rule duplicate_suppression [THEN conjunct2, THEN conjunct2, THEN mp, OF h])
  have ok: "humanFileTimingOk example_world (clock_at example_now) (Name example_human_event)"
    using example_human_triggers by (simp add: triggers_mirror [OF example_mirror_write])
  have m1: "mirror_write ?w1 example_human_event"
    using example_mirror_write by (simp add: mirror_write_after)
  have d: "suppressed_as_duplicate (Name example_human_event) (now_dedup ?clk2)
      (lastHumanFileChanged ?w1) (humanChanged ?w1)"
    using state_after_mirror [OF example_mirror_write ok, of plain_env]
    by (simp add: suppressed_as_duplicate_def clock_at_def Millisecond_def)
  have e: "processWatcherEvent plain_env example_human_event ?clk2 ?w1 = ?w1"
    by (rule duplicate_suppression [THEN conjunct1, THEN mp, OF m1, THEN conjunct1, THEN mp,
          OF d])
  from example_mirror_write example_human_triggers d e c show ?thesis by blast
qed

section \<open>When the sync state is recorded\<close>

lemmas path_defs =
  Join_def Clean_def Split_def Base_def Ext_def before_first_dot_def IsPathSeparator_def
  HasPrefix_def HasSuffix_def TrimSuffix_def

lemma example_counterpart:
  "Join [gmObjectsDir example_world,
         before_first_dot (Base (Name example_human_event)) @ ''.object.gmx''] =
   ''proj/objects/Enemy.object.gmx''"
  by (simp add: example_world_def example_human_event_def path_defs)

lemma example_rejected:
  "HumanObjectFileToGMObjectFile rejecting_env ''proj/gm_txt/Enemy.gmo''
     ''proj/objects/Enemy.object.gmx''
     (example_world\<lparr>humanChanged := t, lastHumanFileChanged := p\<rparr>) =
   (Some (Error_reading_human_object ''proj/gm_txt/Enemy.gmo'' (External ''unknown event'')),
    observe (Call_HumanObjectFileToGMObjectFile ''proj/gm_txt/Enemy.gmo''
      ''proj/objects/Enemy.object.gmx'')
      (example_world\<lparr>humanChanged := t, lastHumanFileChanged := p\<rparr>))"
  by (simp add: HumanObjectFileToGMObjectFile_def rejecting_env_def plain_env_def
      example_world_def os_Open_def observe_def Let_def)

lemma example_rejected_out:
  "out (processWatcherEvent rejecting_env example_human_event (clock_at example_now)
     example_world) =
   [Stamped_error
     (Error_reading_human_object ''proj/gm_txt/Enemy.gmo'' (External ''unknown event''))]"
proof -
  have ok: "humanFileTimingOk example_world (clock_at example_now) (Name example_human_event)"
    using example_human_triggers by (simp add: triggers_mirror [OF example_mirror_write])
  have obj: "isHumanObj example_world (Name example_human_event)"
    by (simp add: example_world_def example_human_event_def isHumanObj_def isHuman_def path_defs)
  have ex: "exists ''proj/objects/Enemy.object.gmx''
      (example_world\<lparr>humanChanged := t, lastHumanFileChanged := p\<rparr>)" for t p
    by (simp add: exists_def example_world_def)
  have nm: "Name example_human_event = ''proj/gm_txt/Enemy.gmo''"
    by (simp add: example_human_event_def)
  show ?thesis
    using ok obj example_counterpart
    by (simp add: mirror_cases [OF example_mirror_write] translateHumanObject_def Let_def
        nm example_rejected ex)
       (simp add: example_world_def observe_def)
qed


lemma not_triggers_unchanged:
  "\<not> triggers env ev clk w \<Longrightarrow> processWatcherEvent env ev clk w = w"
  by (simp add: triggers_def processWatcherEvent_def calls_translateHumanObject
      calls_copyHumanScript calls_translateGMObject calls_copyGMScript split: if_splits)

lemma example_passes:
  "\<not> suppressed_as_reverb (now_reverb (clock_at example_now)) (gmChanged example_world) \<and>
   \<not> suppressed_as_duplicate (Name example_human_event) (now_dedup (clock_at example_now))
       (lastHumanFileChanged example_world) (humanChanged example_world)"
  by (simp add: suppressed_as_reverb_def suppressed_as_duplicate_def clock_at_def
      example_now_def example_world_def example_human_event_def)

text \<open>
  C4, as stated, fails. The human file of the example is rejected by \<open>ReadHumanObject\<close>, the
  translation fails and prints its error, and yet the time and the path of the mirror side have
  changed.
\<close>

theorem sync_state_counterexample:
  "mirror_write example_world example_human_event \<and>
   \<not> suppressed_as_reverb (now_reverb (clock_at example_now)) (gmChanged example_world) \<and>
   \<not> suppressed_as_duplicate (Name example_human_event) (now_dedup (clock_at example_now))
       (lastHumanFileChanged example_world) (humanChanged example_world) \<and>
   out (processWatcherEvent rejecting_env example_human_event (clock_at example_now)
     example_world) =
     [Stamped_error
       (Error_reading_human_object ''proj/gm_txt/Enemy.gmo'' (External ''unknown event''))] \<and>
   humanChanged (processWatcherEvent rejecting_env example_human_event (clock_at example_now)
     example_world) \<noteq> humanChanged example_world \<and>
   lastHumanFileChanged (processWatcherEvent rejecting_env example_human_event
     (clock_at example_now) example_world) \<noteq> lastHumanFileChanged example_world"
proof -
  have ok: "humanFileTimingOk example_world (clock_at example_now) (Name example_human_event)"
    using example_passes by (simp add: humanFileTimingOk_iff)
  have st: "humanChanged (processWatcherEvent rejecting_env example_human_event
        (clock_at example_now) example_world) \<noteq> humanChanged example_world \<and>
      lastHumanFileChanged (processWatcherEvent rejecting_env example_human_event
        (clock_at example_now) example_world) \<noteq> lastHumanFileChanged example_world"
    using state_after_mirror [OF example_mirror_write ok, of rejecting_env]
    by (simp add: clock_at_def example_now_def example_world_def example_human_event_def)
  from example_mirror_write example_passes example_rejected_out st show ?thesis by blast
qed

text \<open>
  C4, amended. For a write event that passes both suppression checks, \<open>processWatcherEvent\<close>
  sets the time of the event's side to the current reading of the clock and the side's last
  path to the path of the event before it calls the translation or copy, and the handler runs
  on that state: the two values are there after the call whatever its result. An event that
  triggers nothing leaves the whole state as it was.
\<close>

theorem sync_state_recorded:
  "(mirror_write w ev \<and> \<not> suppressed_as_reverb (now_reverb clk) (gmChanged w) \<and>
    \<not> suppressed_as_duplicate (Name ev) (now_dedup clk)
        (lastHumanFileChanged w) (humanChanged w) \<longrightarrow>
      processWatcherEvent env ev clk w =
        (if isHumanObj w (Name ev) then translateHumanObject env (Name ev)
         else copyHumanScript env (Name ev))
          (w\<lparr>humanChanged := now_assign clk, lastHumanFileChanged := Name ev\<rparr>) \<and>
      humanChanged (processWatcherEvent env ev clk w) = now_assign clk \<and>
      lastHumanFileChanged (processWatcherEvent env ev clk w) = Name ev) \<and>
   (native_write w ev \<and> \<not> suppressed_as_reverb (now_reverb clk) (humanChanged w) \<and>
    \<not> suppressed_as_duplicate (Name ev) (now_dedup clk)
        (lastGMFileChanged w) (gmChanged w) \<longrightarrow>
      processWatcherEvent env ev clk w =
        (if isGMObj w (Name ev) then translateGMObject env (Name ev)
         else copyGMScript env (Name ev))
          (w\<lparr>gmChanged := now_assign clk, lastGMFileChanged := Name ev\<rparr>) \<and>
      gmChanged (processWatcherEvent env ev clk w) = now_assign clk \<and>
      lastGMFileChanged (processWatcherEvent env ev clk w) = Name ev) \<and>
   (\<not> triggers env ev clk w \<longrightarrow> processWatcherEvent env ev clk w = w)"
proof (intro conjI impI)
  assume a: "mirror_write w ev \<and> \<not> suppressed_as_reverb (now_reverb clk) (gmChanged w) \<and>
    \<not> suppressed_as_duplicate (Name ev) (now_dedup clk)
        (lastHumanFileChanged w) (humanChanged w)"
  then have m: "mirror_write w ev" and ok: "humanFileTimingOk w clk (Name ev)"
    by (simp_all add: humanFileTimingOk_iff)
  show "processWatcherEvent env ev clk w =
        (if isHumanObj w (Name ev) then translateHumanObject env (Name ev)
         else copyHumanScript env (Name ev))
          (w\<lparr>humanChanged := now_assign clk, lastHumanFileChanged := Name ev\<rparr>)"
    using m ok by (simp add: mirror_cases)
  show "humanChanged (processWatcherEvent env ev clk w) = now_assign clk"
    using state_after_mirror [OF m ok, of env] by simp
  show "lastHumanFileChanged (processWatcherEvent env ev clk w) = Name ev"
    using state_after_mirror [OF m ok, of env] by simp
next
  assume a: "native_write w ev \<and> \<not> suppressed_as_reverb (now_reverb clk) (humanChanged w) \<and>
    \<not> suppressed_as_duplicate (Name ev) (now_dedup clk)
        (lastGMFileChanged w) (gmChanged w)"
  then have n: "native_write w ev" and ok: "gmFileTimingOk w clk (Name ev)"
    by (simp_all add: gmFileTimingOk_iff)
  show "processWatcherEvent env ev clk w =
        (if isGMObj w (Name ev) then translateGMObject env (Name ev)
         else copyGMScript env (Name ev))
          (w\<lparr>gmChanged := now_assign clk, lastGMFileChanged := Name ev\<rparr>)"
    using n ok by (simp add: native_cases)
  show "gmChanged (processWatcherEvent env ev clk w) = now_assign clk"
    using state_after_native [OF n ok, of env] by simp
  show "lastGMFileChanged (processWatcherEvent env ev clk w) = Name ev"
    using state_after_native [OF n ok, of env] by simp
next
  assume "\<not> triggers env ev clk w"
  then show "processWatcherEvent env ev clk w = w"
    by (rule not_triggers_unchanged)
qed

theorem sync_state_recorded_witness:
  "mirror_write example_world example_human_event \<and>
   \<not> suppressed_as_reverb (now_reverb (clock_at example_now)) (gmChanged example_world) \<and>
   \<not> suppressed_as_duplicate (Name example_human_event) (now_dedup (clock_at example_now))
       (lastHumanFileChanged example_world) (humanChanged example_world) \<and>
   humanChanged (processWatcherEvent plain_env example_human_event (clock_at example_now)
     example_world) = example_now \<and>
   lastHumanFileChanged (processWatcherEvent plain_env example_human_event
     (clock_at example_now) example_world) = ''proj/gm_txt/Enemy.gmo''"
proof -
  have h: "mirror_write example_world example_human_event \<and>
      \<not> suppressed_as_reverb (now_reverb (clock_at example_now)) (gmChanged example_world) \<and>
      \<not> suppressed_as_duplicate (Name example_human_event) (now_dedup (clock_at example_now))
          (lastHumanFileChanged example_world) (humanChanged example_world)"
    using example_mirror_write example_passes by blast
  note c = sync_state_recorded [of example_world example_human_event "clock_at example_now"
      plain_env, THEN conjunct1, THEN mp, OF h]
  have c1: "humanChanged (processWatcherEvent plain_env example_human_event
      (clock_at example_now) example_world) = example_now"
    using c [THEN conjunct2, THEN conjunct1] by (simp add: clock_at_def)
  have c2: "lastHumanFileChanged (processWatcherEvent plain_env example_human_event
      (clock_at example_now) example_world) = ''proj/gm_txt/Enemy.gmo''"
    using c [THEN conjunct2, THEN conjunct2] by (simp add: example_human_event_def)
  from h c1 c2 show ?thesis by blast
qed

section \<open>Which events trigger a translation or copy\<close>

lemma classified_sides:
  "(Op ev = fsnotify_Write \<and> classified w (Name ev)) = (mirror_write w ev \<or> native_write w ev)"
  by (auto simp: classified_def mirror_write_def native_write_def)

lemma sides_exclusive: "mirror_write w ev \<Longrightarrow> \<not> native_write w ev"
  by (auto simp: mirror_write_def native_write_def)

lemma triggers_iff:
  "triggers env ev clk w =
     (mirror_write w ev \<and> humanFileTimingOk w clk (Name ev) \<or>
      native_write w ev \<and> gmFileTimingOk w clk (Name ev))"
proof (cases "mirror_write w ev")
  case True
  then show ?thesis
    using sides_exclusive [OF True] by (simp add: triggers_mirror)
next
  case False
  show ?thesis
  proof (cases "native_write w ev")
    case True
    then show ?thesis using False by (simp add: triggers_native)
  next
    case n: False
    have "processWatcherEvent env ev clk w = w"
      using False n
      by (auto simp: processWatcherEvent_def mirror_write_def native_write_def)
    then show ?thesis using False n by (simp add: triggers_def)
  qed
qed

lemma example_reverb_window:
  "\<not> humanFileTimingOk (example_world\<lparr>gmChanged := example_now\<rparr>)
      (clock_at (example_now + 200 * Millisecond)) (Name example_human_event)"
  by (simp add: humanFileTimingOk_iff suppressed_as_reverb_def clock_at_def Millisecond_def)

lemma example_mirror_write_any_time:
  "mirror_write (example_world\<lparr>gmChanged := t\<rparr>) example_human_event"
  using example_mirror_write
  by (simp add: mirror_write_def isHumanObj_def isHumanScript_def isHuman_def)

lemma example_text_unclassified:
  "\<not> classified example_world (Name example_text_event)"
  by (simp add: classified_def example_world_def example_text_event_def isHumanObj_def
      isHumanScript_def isHuman_def isGMObj_def isGMScript_def path_defs)

text \<open>
  C6, as stated, fails. The event is a write event, its path is in the human directory with the
  extension \<open>.gmo\<close>, and it triggers nothing: the GM side changed 200 ms before.
\<close>

theorem classification_counterexample:
  "Op example_human_event = fsnotify_Write \<and>
   classified (example_world\<lparr>gmChanged := example_now\<rparr>) (Name example_human_event) \<and>
   \<not> triggers plain_env example_human_event (clock_at (example_now + 200 * Millisecond))
       (example_world\<lparr>gmChanged := example_now\<rparr>)"
proof -
  let ?w = "example_world\<lparr>gmChanged := example_now\<rparr>"
  have m: "mirror_write ?w example_human_event"
    by (rule example_mirror_write_any_time)
  then have c: "Op example_human_event = fsnotify_Write \<and> classified ?w (Name example_human_event)"
    by (simp add: classified_sides)
  have "\<not> triggers plain_env example_human_event (clock_at (example_now + 200 * Millisecond)) ?w"
    using example_reverb_window by (simp add: triggers_mirror [OF m])
  with c show ?thesis by blast
qed

text \<open>
  C6, amended. An event triggers a translation or copy if and only if it is a write event (its
  operation is \<open>Write\<close>), its path is classified (a known root as prefix, with the matching
  extension) and it passes the two timing checks of its side. Every other event leaves the
  world as it was: no call, no file changed, nothing printed.
\<close>

theorem classification_and_timing:
  "(triggers env ev clk w \<longleftrightarrow>
      Op ev = fsnotify_Write \<and> classified w (Name ev) \<and>
      (if isHumanObj w (Name ev) \<or> isHumanScript w (Name ev)
       then \<not> suppressed_as_reverb (now_reverb clk) (gmChanged w) \<and>
            \<not> suppressed_as_duplicate (Name ev) (now_dedup clk)
                (lastHumanFileChanged w) (humanChanged w)
       else \<not> suppressed_as_reverb (now_reverb clk) (humanChanged w) \<and>
            \<not> suppressed_as_duplicate (Name ev) (now_dedup clk)
                (lastGMFileChanged w) (gmChanged w))) \<and>
   (\<not> triggers env ev clk w \<longrightarrow> processWatcherEvent env ev clk w = w)"
proof
  show "triggers env ev clk w \<longleftrightarrow>
      Op ev = fsnotify_Write \<and> classified w (Name ev) \<and>
      (if isHumanObj w (Name ev) \<or> isHumanScript w (Name ev)
       then \<not> suppressed_as_reverb (now_reverb clk) (gmChanged w) \<and>
            \<not> suppressed_as_duplicate (Name ev) (now_dedup clk)
                (lastHumanFileChanged w) (humanChanged w)
       else \<not> suppressed_as_reverb (now_reverb clk) (humanChanged w) \<and>
            \<not> suppressed_as_duplicate (Name ev) (now_dedup clk)
                (lastGMFileChanged w) (gmChanged w))"
    unfolding triggers_iff humanFileTimingOk_iff gmFileTimingOk_iff
    by (auto simp: classified_def mirror_write_def native_write_def)
  show "\<not> triggers env ev clk w \<longrightarrow> processWatcherEvent env ev clk w = w"
    using not_triggers_unchanged by blast
qed

theorem classification_and_timing_witness:
  "\<not> classified example_world (Name example_text_event) \<and>
   \<not> triggers plain_env example_text_event (clock_at example_now) example_world \<and>
   processWatcherEvent plain_env example_text_event (clock_at example_now) example_world =
     example_world \<and>
   Op example_chmod_event \<noteq> fsnotify_Write \<and>
   processWatcherEvent plain_env example_chmod_event (clock_at example_now) example_world =
     example_world \<and>
   Op example_human_event = fsnotify_Write \<and>
   classified example_world (Name example_human_event) \<and>
   triggers plain_env example_human_event (clock_at example_now) example_world"
proof -
  note t = classification_and_timing [of plain_env example_text_event "clock_at example_now"
      example_world]
  have n: "\<not> triggers plain_env example_text_event (clock_at example_now) example_world"
    using t [THEN conjunct1] example_text_unclassified by blast
  have u: "processWatcherEvent plain_env example_text_event (clock_at example_now)
      example_world = example_world"
    by (rule t [THEN conjunct2, THEN mp, OF n])
  note t' = classification_and_timing [of plain_env example_chmod_event "clock_at example_now"
      example_world]
  have o: "Op example_chmod_event \<noteq> fsnotify_Write"
    by (simp add: example_chmod_event_def fsnotify_Chmod_def fsnotify_Write_def)
  have n': "\<not> triggers plain_env example_chmod_event (clock_at example_now) example_world"
    using t' [THEN conjunct1] o by blast
  have u': "processWatcherEvent plain_env example_chmod_event (clock_at example_now)
      example_world = example_world"
    by (rule t' [THEN conjunct2, THEN mp, OF n'])
  have c: "Op example_human_event = fsnotify_Write \<and>
      classified example_world (Name example_human_event)"
    using example_mirror_write by (simp add: classified_sides)
  from example_text_unclassified n u o u' c example_human_triggers show ?thesis by blast
qed

section \<open>Resource names and counterpart paths\<close>

text \<open>
  When the name of the resource has no dot, the part of the file name before its first dot,
  which the handlers take, is the file name without its suffix.
\<close>

lemma Split_scan_undotted:
  "sep \<notin> set s \<Longrightarrow> Split_scan sep piece (s @ sep # rest) = (rev piece @ s) # Split_scan sep [] rest"
  by (induction s arbitrary: piece) auto

lemma before_first_dot_undotted:
  "CHR ''.'' \<notin> set name \<Longrightarrow> before_first_dot (name @ CHR ''.'' # rest) = name"
  by (simp add: before_first_dot_def Split_def Split_scan_undotted)

text \<open>
  C7. The resource name is the file name without the suffix of its format, and the counterpart
  is that name with the other suffix in the other root, also when the name has a dot. The
  handlers do not do this for the object \<open>My.Enemy\<close>: \<open>translateHumanObject\<close> sends the human
  file \<open>My.Enemy.gmo\<close> to the GM file \<open>My.object.gmx\<close> and adds \<open>My\<close> to the project, and
  \<open>translateGMObject\<close> sends the GM file \<open>My.Enemy.object.gmx\<close> to the human file \<open>My.gmo\<close>,
  while the initial pass of \<open>main\<close> sends the same GM file to \<open>My.Enemy.gmo\<close>.
\<close>

theorem dotted_name_counterpart:
  "calls (translateHumanObject plain_env ''proj/gm_txt/My.Enemy.gmo'' example_world) =
     [Call_HumanObjectFileToGMObjectFile ''proj/gm_txt/My.Enemy.gmo''
        ''proj/objects/My.object.gmx'',
      Call_AppendResourceToGMProject ''My'' ''object'' ''objects''] \<and>
   calls (translateGMObject plain_env ''proj/objects/My.Enemy.object.gmx'' example_world) =
     [Call_GMObjectFileToHumanObjectFile ''proj/objects/My.Enemy.object.gmx''
        ''proj/gm_txt/My.gmo''] \<and>
   calls (snd (translate_all_f plain_env (''proj/objects/My.Enemy.object.gmx'', Some False)
     example_world)) =
     [Call_GMObjectFileToHumanObjectFile ''proj/objects/My.Enemy.object.gmx''
        ''proj/gm_txt/My.Enemy.gmo'']"
proof (intro conjI)
  show "calls (translateHumanObject plain_env ''proj/gm_txt/My.Enemy.gmo'' example_world) =
     [Call_HumanObjectFileToGMObjectFile ''proj/gm_txt/My.Enemy.gmo''
        ''proj/objects/My.object.gmx'',
      Call_AppendResourceToGMProject ''My'' ''object'' ''objects'']"
    unfolding calls_translateHumanObject
    by (simp add: example_world_def path_defs exists_def)
  show "calls (translateGMObject plain_env ''proj/objects/My.Enemy.object.gmx'' example_world) =
     [Call_GMObjectFileToHumanObjectFile ''proj/objects/My.Enemy.object.gmx''
        ''proj/gm_txt/My.gmo'']"
    unfolding calls_translateGMObject
    by (simp add: example_world_def path_defs)
  have j: "Join [humanDir example_world,
      TrimSuffix (Base ''proj/objects/My.Enemy.object.gmx'') ''.object.gmx'' @ ''.gmo''] =
      ''proj/gm_txt/My.Enemy.gmo''"
    by (simp add: example_world_def path_defs suffix_to_prefix)
  have s: "HasSuffix ''proj/objects/My.Enemy.object.gmx'' ''.object.gmx''"
    by (simp add: HasSuffix_def suffix_to_prefix)
  obtain e w' where r: "GMObjectFileToHumanObjectFile plain_env
      ''proj/objects/My.Enemy.object.gmx'' ''proj/gm_txt/My.Enemy.gmo'' example_world = (e, w')"
    by (cases "GMObjectFileToHumanObjectFile plain_env
      ''proj/objects/My.Enemy.object.gmx'' ''proj/gm_txt/My.Enemy.gmo'' example_world")
  have c: "calls w' = calls example_world @
      [Call_GMObjectFileToHumanObjectFile ''proj/objects/My.Enemy.object.gmx''
         ''proj/gm_txt/My.Enemy.gmo'']"
    by (rule GM2H_calls [OF r])
  have c0: "calls example_world = []"
    by (simp add: example_world_def)
  show "calls (snd (translate_all_f plain_env (''proj/objects/My.Enemy.object.gmx'', Some False)
     example_world)) =
     [Call_GMObjectFileToHumanObjectFile ''proj/objects/My.Enemy.object.gmx''
        ''proj/gm_txt/My.Enemy.gmo'']"
    using s j r c c0 by (simp add: translate_all_f_def Let_def split: option.splits)
qed

section \<open>A human file that does not parse\<close>

lemma H2GM_parse_error:
  assumes "files w objFilename = Some xml" "xml_Decode env xml = Inr obj"
    "files w humanFilename = Some text" "ReadHumanObject env text obj = Inl err"
  shows "HumanObjectFileToGMObjectFile env humanFilename objFilename w =
         (Some (Error_reading_human_object humanFilename err),
          observe (Call_HumanObjectFileToGMObjectFile humanFilename objFilename) w)"
  using assms
  by (simp add: HumanObjectFileToGMObjectFile_def Let_def os_Open_def observe_def)

lemma H2GM_files_changed:
  assumes "HumanObjectFileToGMObjectFile env humanFilename objFilename w = (e, w')"
    and "files w' \<noteq> files w"
  shows "\<exists>xml obj text obj'. files w objFilename = Some xml \<and> xml_Decode env xml = Inr obj \<and>
           files w humanFilename = Some text \<and> ReadHumanObject env text obj = Inr obj'"
  using assms
  by (auto simp: HumanObjectFileToGMObjectFile_def Let_def os_Open_def observe_def
      split: option.splits sum.splits prod.splits)

lemma translateHumanObject_parse_error:
  assumes "files w (Join [gmObjectsDir w, before_first_dot (Base humanObjPath) @ ''.object.gmx''])
             = Some xml"
    "xml_Decode env xml = Inr obj"
    "files w humanObjPath = Some text" "ReadHumanObject env text obj = Inl err"
  shows "translateHumanObject env humanObjPath w =
         print (Stamped_error (Error_reading_human_object humanObjPath err))
           (observe (Call_HumanObjectFileToGMObjectFile humanObjPath
              (Join [gmObjectsDir w, before_first_dot (Base humanObjPath) @ ''.object.gmx'']))
              w)"
  using assms H2GM_parse_error [OF assms]
  by (simp add: translateHumanObject_def Let_def exists_def)

lemma example_counterpart_path:
  "Join [gmObjectsDir example_world, before_first_dot (Base ''proj/gm_txt/Enemy.gmo'') @
     ''.object.gmx''] = ''proj/objects/Enemy.object.gmx''"
  by (simp add: example_world_def path_defs)

lemma edited_translated:
  "HumanObjectFileToGMObjectFile plain_env ''proj/gm_txt/Enemy.gmo''
     ''proj/objects/Enemy.object.gmx'' edited_world =
   (None,
    file_Write ''proj/objects/Enemy.object.gmx'' ''not solid''
      ((observe (Call_HumanObjectFileToGMObjectFile ''proj/gm_txt/Enemy.gmo''
          ''proj/objects/Enemy.object.gmx'') edited_world)
        \<lparr>files := (files edited_world)(''proj/objects/Enemy.object.gmx'' \<mapsto> [])\<rparr>))"
  by (simp add: HumanObjectFileToGMObjectFile_def plain_env_def edited_world_def
      example_world_def os_Open_def os_Create_def observe_def Let_def)

text \<open>
  C8. When the GM object file of a human file exists and decodes, and \<open>ReadHumanObject\<close>
  returns an error on the human file, \<open>translateHumanObject\<close> prints that error and changes no
  file: the GM object file keeps its bytes. Moreover \<open>HumanObjectFileToGMObjectFile\<close> changes
  the files only after \<open>ReadHumanObject\<close> has succeeded, so the GM object file is not created
  anew before that.
\<close>

theorem malformed_mirror_edit:
  "(files w (Join [gmObjectsDir w, before_first_dot (Base humanObjPath) @ ''.object.gmx''])
      = Some xml \<and>
    xml_Decode env xml = Inr obj \<and> files w humanObjPath = Some text \<and>
    ReadHumanObject env text obj = Inl err \<longrightarrow>
      files (translateHumanObject env humanObjPath w) = files w \<and>
      out (translateHumanObject env humanObjPath w) =
        out w @ [Stamped_error (Error_reading_human_object humanObjPath err)]) \<and>
   (HumanObjectFileToGMObjectFile env humanFilename objFilename w = (e, w') \<and>
    files w' \<noteq> files w \<longrightarrow>
      (\<exists>xml' obj' text' obj''. files w objFilename = Some xml' \<and>
         xml_Decode env xml' = Inr obj' \<and> files w humanFilename = Some text' \<and>
         ReadHumanObject env text' obj' = Inr obj''))"
proof (intro conjI impI)
  assume a: "files w (Join [gmObjectsDir w, before_first_dot (Base humanObjPath) @ ''.object.gmx''])
      = Some xml \<and>
    xml_Decode env xml = Inr obj \<and> files w humanObjPath = Some text \<and>
    ReadHumanObject env text obj = Inl err"
  have r: "translateHumanObject env humanObjPath w =
         print (Stamped_error (Error_reading_human_object humanObjPath err))
           (observe (Call_HumanObjectFileToGMObjectFile humanObjPath
              (Join [gmObjectsDir w, before_first_dot (Base humanObjPath) @ ''.object.gmx'']))
              w)"
    using a translateHumanObject_parse_error [of w humanObjPath xml env obj "text" err] by blast
  show "files (translateHumanObject env humanObjPath w) = files w"
    unfolding r by (simp add: observe_def)
  show "out (translateHumanObject env humanObjPath w) =
        out w @ [Stamped_error (Error_reading_human_object humanObjPath err)]"
    unfolding r by (simp add: observe_def)
next
  assume "HumanObjectFileToGMObjectFile env humanFilename objFilename w = (e, w') \<and>
    files w' \<noteq> files w"
  then show "\<exists>xml' obj' text' obj''. files w objFilename = Some xml' \<and>
         xml_Decode env xml' = Inr obj' \<and> files w humanFilename = Some text' \<and>
         ReadHumanObject env text' obj' = Inr obj''"
    using H2GM_files_changed by blast
qed

theorem malformed_mirror_edit_witness:
  "files example_world ''proj/objects/Enemy.object.gmx'' = Some ''solid'' \<and>
   xml_Decode rejecting_env ''solid'' = Inr ''solid'' \<and>
   files example_world ''proj/gm_txt/Enemy.gmo'' = Some ''solid'' \<and>
   ReadHumanObject rejecting_env ''solid'' ''solid'' = Inl (External ''unknown event'') \<and>
   files (translateHumanObject rejecting_env ''proj/gm_txt/Enemy.gmo'' example_world) =
     files example_world \<and>
   out (translateHumanObject rejecting_env ''proj/gm_txt/Enemy.gmo'' example_world) =
     [Stamped_error
       (Error_reading_human_object ''proj/gm_txt/Enemy.gmo'' (External ''unknown event''))] \<and>
   files (snd (HumanObjectFileToGMObjectFile plain_env ''proj/gm_txt/Enemy.gmo''
     ''proj/objects/Enemy.object.gmx'' edited_world)) \<noteq> files edited_world \<and>
   (\<exists>xml obj text obj'. files edited_world ''proj/objects/Enemy.object.gmx'' = Some xml \<and>
      xml_Decode plain_env xml = Inr obj \<and>
      files edited_world ''proj/gm_txt/Enemy.gmo'' = Some text \<and>
      ReadHumanObject plain_env text obj = Inr obj')"
proof -
  have h: "files example_world (Join [gmObjectsDir example_world,
        before_first_dot (Base ''proj/gm_txt/Enemy.gmo'') @ ''.object.gmx'']) = Some ''solid'' \<and>
      xml_Decode rejecting_env ''solid'' = Inr ''solid'' \<and>
      files example_world ''proj/gm_txt/Enemy.gmo'' = Some ''solid'' \<and>
      ReadHumanObject rejecting_env ''solid'' ''solid'' = Inl (External ''unknown event'')"
    unfolding example_counterpart_path
    by (simp add: example_world_def rejecting_env_def plain_env_def)
  note c = malformed_mirror_edit [of example_world "''proj/gm_txt/Enemy.gmo''" "''solid''"
      rejecting_env "''solid''" "''solid''" "External ''unknown event''",
      THEN conjunct1, THEN mp, OF h]
  have o: "out (translateHumanObject rejecting_env ''proj/gm_txt/Enemy.gmo'' example_world) =
     [Stamped_error
       (Error_reading_human_object ''proj/gm_txt/Enemy.gmo'' (External ''unknown event''))]"
    using c [THEN conjunct2] by (simp add: example_world_def)
  let ?r = "HumanObjectFileToGMObjectFile plain_env ''proj/gm_txt/Enemy.gmo''
     ''proj/objects/Enemy.object.gmx'' edited_world"
  have n: "files (snd ?r) \<noteq> files edited_world"
  proof
    assume "files (snd ?r) = files edited_world"
    then have "files (snd ?r) ''proj/objects/Enemy.object.gmx'' =
        files edited_world ''proj/objects/Enemy.object.gmx''"
      by simp
    then show False
      unfolding edited_translated
      by (simp add: file_Write_def edited_world_def example_world_def)
  qed
  have g: "?r = (fst ?r, snd ?r) \<and> files (snd ?r) \<noteq> files edited_world"
    using n by simp
  have x: "\<exists>xml obj text obj'. files edited_world ''proj/objects/Enemy.object.gmx'' = Some xml \<and>
      xml_Decode plain_env xml = Inr obj \<and>
      files edited_world ''proj/gm_txt/Enemy.gmo'' = Some text \<and>
      ReadHumanObject plain_env text obj = Inr obj'"
    by (rule malformed_mirror_edit [THEN conjunct2, THEN mp, OF g])
  have h': "files example_world ''proj/objects/Enemy.object.gmx'' = Some ''solid''"
    by (simp add: example_world_def)
  from h h' c [THEN conjunct1] o n x show ?thesis by blast
qed

section \<open>A failure after the human file was parsed\<close>

lemma H2GM_encode_error:
  assumes "files w objFilename = Some xml" "xml_Decode env xml = Inr obj"
    "files w humanFilename = Some text" "ReadHumanObject env text obj = Inr obj'"
    "creatable w objFilename" "xml_Encode env obj' = (written, Some err)"
  shows "HumanObjectFileToGMObjectFile env humanFilename objFilename w =
         (Some (Error_writing_XML objFilename err),
          (observe (Call_HumanObjectFileToGMObjectFile humanFilename objFilename) w)
            \<lparr>files := (files w)(objFilename \<mapsto> written)\<rparr>)"
  using assms
  by (simp add: HumanObjectFileToGMObjectFile_def Let_def os_Open_def os_Create_def
      file_Write_def observe_def)

text \<open>
  C10. When the human file has been read onto the object and the GM object file has been
  created again, an error of the XML encoder makes \<open>HumanObjectFileToGMObjectFile\<close> return
  the error with the GM object file holding only the bytes that reached it before the failure
  (none, or a part of the document), not its previous content: the failed translation has
  changed the output file.
\<close>

theorem failed_encoding_not_atomic:
  "files w objFilename = Some xml \<and> xml_Decode env xml = Inr obj \<and>
   files w humanFilename = Some text \<and> ReadHumanObject env text obj = Inr obj' \<and>
   creatable w objFilename \<and> xml_Encode env obj' = (written, Some err) \<longrightarrow>
     fst (HumanObjectFileToGMObjectFile env humanFilename objFilename w) =
       Some (Error_writing_XML objFilename err) \<and>
     files (snd (HumanObjectFileToGMObjectFile env humanFilename objFilename w)) =
       (files w)(objFilename \<mapsto> written)"
proof
  assume a: "files w objFilename = Some xml \<and> xml_Decode env xml = Inr obj \<and>
   files w humanFilename = Some text \<and> ReadHumanObject env text obj = Inr obj' \<and>
   creatable w objFilename \<and> xml_Encode env obj' = (written, Some err)"
  have "HumanObjectFileToGMObjectFile env humanFilename objFilename w =
         (Some (Error_writing_XML objFilename err),
          (observe (Call_HumanObjectFileToGMObjectFile humanFilename objFilename) w)
            \<lparr>files := (files w)(objFilename \<mapsto> written)\<rparr>)"
    using a H2GM_encode_error [of w objFilename xml env obj humanFilename "text" obj' written err]
    by blast
  then show "fst (HumanObjectFileToGMObjectFile env humanFilename objFilename w) =
       Some (Error_writing_XML objFilename err) \<and>
     files (snd (HumanObjectFileToGMObjectFile env humanFilename objFilename w)) =
       (files w)(objFilename \<mapsto> written)"
    by simp
qed

theorem failed_encoding_not_atomic_witness:
  "files edited_world ''proj/objects/Enemy.object.gmx'' = Some ''solid'' \<and>
   xml_Decode failing_encoder_env ''solid'' = Inr ''solid'' \<and>
   files edited_world ''proj/gm_txt/Enemy.gmo'' = Some ''not solid'' \<and>
   ReadHumanObject failing_encoder_env ''not solid'' ''solid'' = Inr ''not solid'' \<and>
   creatable edited_world ''proj/objects/Enemy.object.gmx'' \<and>
   xml_Encode failing_encoder_env ''not solid'' = (''no'', Some (External ''short write'')) \<and>
   fst (HumanObjectFileToGMObjectFile failing_encoder_env ''proj/gm_txt/Enemy.gmo''
     ''proj/objects/Enemy.object.gmx'' edited_world) =
     Some (Error_writing_XML ''proj/objects/Enemy.object.gmx'' (External ''short write'')) \<and>
   files (snd (HumanObjectFileToGMObjectFile failing_encoder_env ''proj/gm_txt/Enemy.gmo''
     ''proj/objects/Enemy.object.gmx'' edited_world)) ''proj/objects/Enemy.object.gmx'' =
     Some ''no''"
proof -
  have h: "files edited_world ''proj/objects/Enemy.object.gmx'' = Some ''solid'' \<and>
      xml_Decode failing_encoder_env ''solid'' = Inr ''solid'' \<and>
      files edited_world ''proj/gm_txt/Enemy.gmo'' = Some ''not solid'' \<and>
      ReadHumanObject failing_encoder_env ''not solid'' ''solid'' = Inr ''not solid'' \<and>
      creatable edited_world ''proj/objects/Enemy.object.gmx'' \<and>
      xml_Encode failing_encoder_env ''not solid'' = (''no'', Some (External ''short write''))"
    by (simp add: edited_world_def example_world_def failing_encoder_env_def plain_env_def)
  note c = failed_encoding_not_atomic [THEN mp, OF h]
  have f: "files (snd (HumanObjectFileToGMObjectFile failing_encoder_env
      ''proj/gm_txt/Enemy.gmo'' ''proj/objects/Enemy.object.gmx'' edited_world))
      ''proj/objects/Enemy.object.gmx'' = Some ''no''"
    unfolding c [THEN conjunct2] by simp
  from h c [THEN conjunct1] f show ?thesis by blast
qed

section \<open>A human file without a GM object file\<close>

lemma H2GM_no_native:
  "files w objFilename = None \<Longrightarrow>
   HumanObjectFileToGMObjectFile env humanFilename objFilename w =
     (Some (Error_opening_file objFilename (NotExist objFilename)),
      observe (Call_HumanObjectFileToGMObjectFile humanFilename objFilename) w)"
  by (simp add: HumanObjectFileToGMObjectFile_def Let_def os_Open_def observe_def)

lemma translateHumanObject_no_native:
  assumes "files w (Join [gmObjectsDir w, before_first_dot (Base humanObjPath) @ ''.object.gmx''])
             = None"
  shows "translateHumanObject env humanObjPath w =
     (let gmObjPath = Join [gmObjectsDir w, before_first_dot (Base humanObjPath) @ ''.object.gmx''];
          w2 = print (Stamped_error (Error_opening_file gmObjPath (NotExist gmObjPath)))
                 (observe (Call_HumanObjectFileToGMObjectFile humanObjPath gmObjPath) w);
          (err', w3) = do_AppendResourceToGMProject env (before_first_dot (Base humanObjPath))
                         ''object'' ''objects'' w2
      in case err' of Some e \<Rightarrow> print (Stamped_error e) w3
         | None \<Rightarrow> print (Project_file_updated (before_first_dot (Base humanObjPath))) w3)"
  using assms H2GM_no_native [OF assms, of env humanObjPath]
  by (simp add: translateHumanObject_def Let_def exists_def)

lemma new_enemy_mirror_write: "mirror_write new_enemy_world example_human_event"
  using example_mirror_write
  by (simp add: new_enemy_world_def mirror_write_def isHumanObj_def isHumanScript_def
      isHuman_def)

lemma new_enemy_handled:
  "processWatcherEvent plain_env example_human_event (clock_at example_now) new_enemy_world =
   translateHumanObject plain_env ''proj/gm_txt/Enemy.gmo''
     (new_enemy_world\<lparr>humanChanged := example_now,
        lastHumanFileChanged := ''proj/gm_txt/Enemy.gmo''\<rparr>)"
proof -
  have ok: "humanFileTimingOk new_enemy_world (clock_at example_now) (Name example_human_event)"
    by (simp add: humanFileTimingOk_iff suppressed_as_reverb_def suppressed_as_duplicate_def
        clock_at_def example_now_def example_world_def new_enemy_world_def
        example_human_event_def)
  have obj: "isHumanObj new_enemy_world (Name example_human_event)"
    by (simp add: new_enemy_world_def example_world_def example_human_event_def isHumanObj_def
        isHuman_def path_defs)
  show ?thesis
    using ok obj
    by (simp add: mirror_cases [OF new_enemy_mirror_write])
       (simp add: example_human_event_def clock_at_def)
qed

lemma new_enemy_first_event:
  "files new_enemy_world ''proj/objects/Enemy.object.gmx'' = None \<and>
   calls (processWatcherEvent plain_env example_human_event (clock_at example_now)
     new_enemy_world) =
     [Call_HumanObjectFileToGMObjectFile ''proj/gm_txt/Enemy.gmo''
        ''proj/objects/Enemy.object.gmx'',
      Call_AppendResourceToGMProject ''Enemy'' ''object'' ''objects''] \<and>
   out (processWatcherEvent plain_env example_human_event (clock_at example_now)
     new_enemy_world) =
     [Stamped_error (Error_opening_file ''proj/objects/Enemy.object.gmx''
        (NotExist ''proj/objects/Enemy.object.gmx'')),
      Project_file_updated ''Enemy''] \<and>
   files (processWatcherEvent plain_env example_human_event (clock_at example_now)
     new_enemy_world) ''proj/objects/Enemy.object.gmx'' = None \<and>
   files (processWatcherEvent plain_env example_human_event (clock_at example_now)
     new_enemy_world) ''proj/game.project.gmx'' = Some ''objects/Enemy; ''"
proof -
  let ?w = "new_enemy_world\<lparr>humanChanged := example_now,
        lastHumanFileChanged := ''proj/gm_txt/Enemy.gmo''\<rparr>"
  have j: "Join [gmObjectsDir ?w, before_first_dot (Base ''proj/gm_txt/Enemy.gmo'') @
      ''.object.gmx''] = ''proj/objects/Enemy.object.gmx''"
    by (simp add: new_enemy_world_def example_world_def path_defs)
  have n: "files ?w (Join [gmObjectsDir ?w, before_first_dot (Base ''proj/gm_txt/Enemy.gmo'') @
      ''.object.gmx'']) = None"
    unfolding j by (simp add: new_enemy_world_def example_world_def)
  have b: "before_first_dot (Base ''proj/gm_txt/Enemy.gmo'') = ''Enemy''"
    by (simp add: path_defs)
  note unfold = new_enemy_handled translateHumanObject_no_native [OF n] j b
  note eval = Let_def do_AppendResourceToGMProject_def plain_env_def observe_def print_def
    new_enemy_world_def example_world_def path_defs
  have 0: "files new_enemy_world ''proj/objects/Enemy.object.gmx'' = None"
    by (simp add: new_enemy_world_def example_world_def)
  have 1: "calls (processWatcherEvent plain_env example_human_event (clock_at example_now)
     new_enemy_world) =
     [Call_HumanObjectFileToGMObjectFile ''proj/gm_txt/Enemy.gmo''
        ''proj/objects/Enemy.object.gmx'',
      Call_AppendResourceToGMProject ''Enemy'' ''object'' ''objects'']"
    unfolding unfold by (simp add: eval)
  have 2: "out (processWatcherEvent plain_env example_human_event (clock_at example_now)
     new_enemy_world) =
     [Stamped_error (Error_opening_file ''proj/objects/Enemy.object.gmx''
        (NotExist ''proj/objects/Enemy.object.gmx'')),
      Project_file_updated ''Enemy'']"
    unfolding unfold by (simp add: eval)
  have 3: "files (processWatcherEvent plain_env example_human_event (clock_at example_now)
     new_enemy_world) ''proj/objects/Enemy.object.gmx'' = None"
    unfolding unfold by (simp add: eval)
  have 4: "files (processWatcherEvent plain_env example_human_event (clock_at example_now)
     new_enemy_world) ''proj/game.project.gmx'' = Some ''objects/Enemy; ''"
    unfolding unfold by (simp add: eval)
  from 0 1 2 3 4 show ?thesis by blast
qed

lemma new_enemy_second_event:
  "calls (watch plain_env
     [Event example_human_event (clock_at example_now),
      Event example_human_event (clock_at (example_now + 2 * Second))] new_enemy_world) =
     [Call_HumanObjectFileToGMObjectFile ''proj/gm_txt/Enemy.gmo''
        ''proj/objects/Enemy.object.gmx'',
      Call_AppendResourceToGMProject ''Enemy'' ''object'' ''objects'',
      Call_HumanObjectFileToGMObjectFile ''proj/gm_txt/Enemy.gmo''
        ''proj/objects/Enemy.object.gmx'',
      Call_AppendResourceToGMProject ''Enemy'' ''object'' ''objects'']"
proof -
  let ?ev = example_human_event
  let ?w1 = "processWatcherEvent plain_env ?ev (clock_at example_now) new_enemy_world"
  let ?clk2 = "clock_at (example_now + 2 * Second)"
  let ?w1' = "?w1\<lparr>humanChanged := now_assign ?clk2, lastHumanFileChanged := Name ?ev\<rparr>"
  have ok1: "humanFileTimingOk new_enemy_world (clock_at example_now) (Name ?ev)"
    by (simp add: humanFileTimingOk_iff suppressed_as_reverb_def suppressed_as_duplicate_def
        clock_at_def example_now_def example_world_def new_enemy_world_def
        example_human_event_def)
  have st: "humanChanged ?w1 = example_now" "gmChanged ?w1 = 0"
    using state_after_mirror [OF new_enemy_mirror_write ok1, of plain_env]
    by (simp_all add: clock_at_def new_enemy_world_def example_world_def)
  have m1: "mirror_write ?w1 ?ev"
    using new_enemy_mirror_write by (simp add: mirror_write_after)
  have ok2: "humanFileTimingOk ?w1 ?clk2 (Name ?ev)"
    using st
    by (simp add: humanFileTimingOk_iff suppressed_as_reverb_def suppressed_as_duplicate_def
        clock_at_def example_now_def Second_def Millisecond_def)
  have obj: "isHumanObj ?w1 (Name ?ev)"
    by (simp add: isHumanObj_def isHuman_def dirs_processWatcherEvent new_enemy_world_def
        example_world_def example_human_event_def path_defs)
  have d: "gmObjectsDir ?w1' = ''proj/objects''"
    by (simp add: dirs_processWatcherEvent new_enemy_world_def example_world_def)
  have nm: "Name ?ev = ''proj/gm_txt/Enemy.gmo''"
    by (simp add: example_human_event_def)
  have j: "Join [''proj/objects'', ''Enemy.object.gmx''] = ''proj/objects/Enemy.object.gmx''"
    by (simp add: path_defs)
  have b: "before_first_dot (Base ''proj/gm_txt/Enemy.gmo'') = ''Enemy''"
    by (simp add: path_defs)
  have ne: "\<not> exists ''proj/objects/Enemy.object.gmx'' ?w1'"
    using new_enemy_first_event by (simp add: exists_def)
  have c1: "calls ?w1' =
     [Call_HumanObjectFileToGMObjectFile ''proj/gm_txt/Enemy.gmo''
        ''proj/objects/Enemy.object.gmx'',
      Call_AppendResourceToGMProject ''Enemy'' ''object'' ''objects'']"
    using new_enemy_first_event by simp
  have eq: "watch plain_env [Event ?ev (clock_at example_now), Event ?ev ?clk2]
      new_enemy_world = translateHumanObject plain_env ''proj/gm_txt/Enemy.gmo'' ?w1'"
    using ok2 obj by (simp add: mirror_cases [OF m1] nm)
  have "calls (translateHumanObject plain_env ''proj/gm_txt/Enemy.gmo'' ?w1') =
     [Call_HumanObjectFileToGMObjectFile ''proj/gm_txt/Enemy.gmo''
        ''proj/objects/Enemy.object.gmx'',
      Call_AppendResourceToGMProject ''Enemy'' ''object'' ''objects'',
      Call_HumanObjectFileToGMObjectFile ''proj/gm_txt/Enemy.gmo''
        ''proj/objects/Enemy.object.gmx'',
      Call_AppendResourceToGMProject ''Enemy'' ''object'' ''objects'']"
    unfolding calls_translateHumanObject d b using ne c1 by (simp add: j)
  then show ?thesis
    unfolding eq .
qed

text \<open>
  C5. A write of the human file \<open>Enemy.gmo\<close> when the GM object file does not exist should
  produce \<open>objects/Enemy.object.gmx\<close> from a default object and add \<open>Enemy\<close> to the objects
  of the project exactly once. The handler makes the two calls, but
  \<open>HumanObjectFileToGMObjectFile\<close> starts by opening the GM object file and returns the error
  of \<open>os.Open\<close>: the error is printed and no GM object file is produced (whatever the
  collaborators are, by \<open>H2GM_no_native\<close>), while the project is updated. The GM object
  file is still missing at the next write of the human file, two seconds later, and the handler
  calls for the update of the project a second time.
\<close>

theorem new_object_from_mirror_edit:
  "files new_enemy_world ''proj/objects/Enemy.object.gmx'' = None \<and>
   calls (processWatcherEvent plain_env example_human_event (clock_at example_now)
     new_enemy_world) =
     [Call_HumanObjectFileToGMObjectFile ''proj/gm_txt/Enemy.gmo''
        ''proj/objects/Enemy.object.gmx'',
      Call_AppendResourceToGMProject ''Enemy'' ''object'' ''objects''] \<and>
   out (processWatcherEvent plain_env example_human_event (clock_at example_now)
     new_enemy_world) =
     [Stamped_error (Error_opening_file ''proj/objects/Enemy.object.gmx''
        (NotExist ''proj/objects/Enemy.object.gmx'')),
      Project_file_updated ''Enemy''] \<and>
   files (processWatcherEvent plain_env example_human_event (clock_at example_now)
     new_enemy_world) ''proj/objects/Enemy.object.gmx'' = None \<and>
   files (processWatcherEvent plain_env example_human_event (clock_at example_now)
     new_enemy_world) ''proj/game.project.gmx'' = Some ''objects/Enemy; '' \<and>
   calls (watch plain_env
     [Event example_human_event (clock_at example_now),
      Event example_human_event (clock_at (example_now + 2 * Second))] new_enemy_world) =
     [Call_HumanObjectFileToGMObjectFile ''proj/gm_txt/Enemy.gmo''
        ''proj/objects/Enemy.object.gmx'',
      Call_AppendResourceToGMProject ''Enemy'' ''object'' ''objects'',
      Call_HumanObjectFileToGMObjectFile ''proj/gm_txt/Enemy.gmo''
        ''proj/objects/Enemy.object.gmx'',
      Call_AppendResourceToGMProject ''Enemy'' ''object'' ''objects'']"
  using new_enemy_first_event new_enemy_second_event by blast

section \<open>Which failures end the process\<close>














































section \<open>The two file translations, one after the other\<close>

text \<open>
  What the two functions of this program add to their collaborators: when every step succeeds,
  translating a GM object file to its human file and that human file back leaves, in the GM
  object file, the encoding of the object that \<open>ReadHumanObject\<close> makes from the decoded
  object and the text that \<open>WriteHumanObject\<close> and the flush wrote for it. Whether that
  object is the decoded one is a property of \<open>WriteHumanObject\<close> and \<open>ReadHumanObject\<close>,
  which are not part of the two source files.
\<close>

lemma GM2H_success:
  assumes "files w objFilename = Some xml" "xml_Decode env xml = Inr obj"
    "creatable w humanFilename" "WriteHumanObject env obj = (written, buffered, None)"
    "Flush env buffered = (flushed, flush_err)"
  shows "GMObjectFileToHumanObjectFile env objFilename humanFilename w =
         (None,
          (observe (Call_GMObjectFileToHumanObjectFile objFilename humanFilename) w)
            \<lparr>files := (files w)(humanFilename \<mapsto> written @ flushed)\<rparr>)"
  using assms
  by (simp add: GMObjectFileToHumanObjectFile_def Let_def os_Open_def os_Create_def
      file_Write_def observe_def)

lemma H2GM_success:
  assumes "files w objFilename = Some xml" "xml_Decode env xml = Inr obj"
    "files w humanFilename = Some written" "ReadHumanObject env written obj = Inr obj'"
    "creatable w objFilename" "xml_Encode env obj' = (xml', None)"
  shows "HumanObjectFileToGMObjectFile env humanFilename objFilename w =
         (None,
          (observe (Call_HumanObjectFileToGMObjectFile humanFilename objFilename) w)
            \<lparr>files := (files w)(objFilename \<mapsto> xml')\<rparr>)"
  using assms
  by (simp add: HumanObjectFileToGMObjectFile_def Let_def os_Open_def os_Create_def
      file_Write_def observe_def)

lemma files_there_and_back:
  assumes "files w objFilename = Some xml" "xml_Decode env xml = Inr obj"
    "creatable w humanFilename" "creatable w objFilename" "humanFilename \<noteq> objFilename"
    "WriteHumanObject env obj = (written, buffered, None)"
    "Flush env buffered = (flushed, flush_err)"
    "ReadHumanObject env (written @ flushed) obj = Inr obj'" "xml_Encode env obj' = (xml', None)"
    "GMObjectFileToHumanObjectFile env objFilename humanFilename w = (e1, w1)"
    "HumanObjectFileToGMObjectFile env humanFilename objFilename w1 = (e2, w2)"
  shows "e1 = None \<and> e2 = None \<and>
         files w2 = (files w)(humanFilename \<mapsto> written @ flushed, objFilename \<mapsto> xml')"
proof -
  have 1: "e1 = None"
    "w1 = (observe (Call_GMObjectFileToHumanObjectFile objFilename humanFilename) w)
            \<lparr>files := (files w)(humanFilename \<mapsto> written @ flushed)\<rparr>"
    using GM2H_success [OF assms(1,2,3,6,7)] assms(10) by simp_all
  have f1: "files w1 objFilename = Some xml" "files w1 humanFilename = Some (written @ flushed)"
    "creatable w1 objFilename"
    using assms(1,4,5) by (simp_all add: 1 observe_def)
  have 2: "e2 = None"
    "w2 = (observe (Call_HumanObjectFileToGMObjectFile humanFilename objFilename) w1)
            \<lparr>files := (files w1)(objFilename \<mapsto> xml')\<rparr>"
    using H2GM_success [OF f1(1) assms(2) f1(2) assms(8) f1(3) assms(9)] assms(11) by simp_all
  show ?thesis
    using 1(1) 2(1) by (simp add: 2(2) 1(2) observe_def)
qed

section \<open>The flush of the human file\<close>

text \<open>
  \<open>GMObjectFileToHumanObjectFile\<close> does not look at the error of \<open>w.Flush()\<close>: when the flush
  fails, the function returns no error, the human file holds what reached it, and
  \<open>translateGMObject\<close> prints that the object was translated.
\<close>

lemma flush_error_not_reported:
  assumes "files w p = Some xml" "xml_Decode env xml = Inr obj"
    "creatable w (Join [humanDir w, before_first_dot (Base p) @ ''.gmo''])"
    "WriteHumanObject env obj = (written, buffered, None)"
    "Flush env buffered = (flushed, Some err)"
  shows "out (translateGMObject env p w) =
           out w @ [FromGM_Translated (before_first_dot (Base p))] \<and>
         files (translateGMObject env p w)
           (Join [humanDir w, before_first_dot (Base p) @ ''.gmo'']) = Some (written @ flushed)"
  using GM2H_success [OF assms]
  by (simp add: translateGMObject_def Let_def observe_def)

end
